theory Spec2Isabelle
  imports Complex_Main "HOL-Library.Char_ord" "HOL-Library.List_Lexorder"
begin

section \<open>Python values and library calls\<close>

text \<open>
  The clinic assistant is Python. Every exception the source can raise is a value of
  \<open>py_error\<close>, and a function that may raise returns \<open>py_error + 'a\<close> with \<open>Inl\<close> the
  exception. A string is a list of characters with code points below 256 (Latin-1), and
  the string functions below are Python's on all of these; a Python string with a character
  beyond them has no counterpart here.
\<close>

datatype py_error =
    KeyError string
  | ValueError
  | TypeError
  | AttributeError
  | JSONDecodeError
  | HTTPError
  | ZoneInfoNotFoundError

text \<open>
  The values \<open>json.loads\<close> produces. An object is an association list; Python builds a
  \<open>dict\<close> from it, whose keys are distinct. A float is kept as a rational (the program only
  ever tests one for being zero).
\<close>

datatype json =
    JNull
  | JBool bool
  | JInt int
  | JFloat rat
  | JString string
  | JArray "json list"
  | JObject "(string \<times> json) list"

text \<open>\<open>str.isspace\<close> below code point 256: tab, newline, vertical tab, form feed, carriage
  return, the four separators 0x1C..0x1F, the space, next line (0x85) and the no-break
  space (0xA0).\<close>

definition is_space :: "char \<Rightarrow> bool" where
  "is_space c = (c \<in> set [CHR 0x09, CHR 0x0A, CHR 0x0B, CHR 0x0C, CHR 0x0D,
                            CHR 0x1C, CHR 0x1D, CHR 0x1E, CHR 0x1F, CHR '' '',
                            CHR 0x85, CHR 0xA0])"

text \<open>\<open>str.strip()\<close> and \<open>str.lower()\<close>. Below code point 256 the capitals are \<open>A\<close> to \<open>Z\<close> and
  0xC0 to 0xDE without the multiplication sign 0xD7; each has its small letter 32 places
  on, and \<open>lower\<close> changes no other character.\<close>

definition strip :: "string \<Rightarrow> string" where
  "strip s = rev (dropWhile is_space (rev (dropWhile is_space s)))"

definition CAPITALS :: string where
  "CAPITALS =
     ''ABCDEFGHIJKLMNOPQRSTUVWXYZ'' @
     [CHR 0xC0, CHR 0xC1, CHR 0xC2, CHR 0xC3, CHR 0xC4, CHR 0xC5, CHR 0xC6, CHR 0xC7,
      CHR 0xC8, CHR 0xC9, CHR 0xCA, CHR 0xCB, CHR 0xCC, CHR 0xCD, CHR 0xCE, CHR 0xCF,
      CHR 0xD0, CHR 0xD1, CHR 0xD2, CHR 0xD3, CHR 0xD4, CHR 0xD5, CHR 0xD6, CHR 0xD8,
      CHR 0xD9, CHR 0xDA, CHR 0xDB, CHR 0xDC, CHR 0xDD, CHR 0xDE]"

definition SMALL_LETTERS :: string where
  "SMALL_LETTERS =
     ''abcdefghijklmnopqrstuvwxyz'' @
     [CHR 0xE0, CHR 0xE1, CHR 0xE2, CHR 0xE3, CHR 0xE4, CHR 0xE5, CHR 0xE6, CHR 0xE7,
      CHR 0xE8, CHR 0xE9, CHR 0xEA, CHR 0xEB, CHR 0xEC, CHR 0xED, CHR 0xEE, CHR 0xEF,
      CHR 0xF0, CHR 0xF1, CHR 0xF2, CHR 0xF3, CHR 0xF4, CHR 0xF5, CHR 0xF6, CHR 0xF8,
      CHR 0xF9, CHR 0xFA, CHR 0xFB, CHR 0xFC, CHR 0xFD, CHR 0xFE]"

definition lower_char :: "char \<Rightarrow> char" where
  "lower_char c = (case map_of (zip CAPITALS SMALL_LETTERS) c of None \<Rightarrow> c | Some l \<Rightarrow> l)"

definition lower :: "string \<Rightarrow> string" where
  "lower s = map lower_char s"

text \<open>\<open>str.split()\<close> (runs of whitespace separate the words, none is empty) and
  \<open>str.split(sep)\<close> for a one-character separator (every separator splits, empty pieces are
  kept, and the empty string gives one empty piece).\<close>

primrec split_words :: "string \<Rightarrow> string \<Rightarrow> string list" where
  "split_words cur [] = (if cur = [] then [] else [cur])"
| "split_words cur (c # cs) =
     (if is_space c then (if cur = [] then split_words [] cs else cur # split_words [] cs)
      else split_words (cur @ [c]) cs)"

definition split_whitespace :: "string \<Rightarrow> string list" where
  "split_whitespace s = split_words [] s"

primrec split_pieces :: "char \<Rightarrow> string \<Rightarrow> string \<Rightarrow> string list" where
  "split_pieces sep cur [] = [cur]"
| "split_pieces sep cur (c # cs) =
     (if c = sep then cur # split_pieces sep [] cs else split_pieces sep (cur @ [c]) cs)"

definition split_sep :: "char \<Rightarrow> string \<Rightarrow> string list" where
  "split_sep sep s = split_pieces sep [] s"

text \<open>
  The library calls whose results the program only passes on are parameters of the model:
  \<^item> \<open>iso_weekday s\<close> is \<open>datetime.fromisoformat(s).date().weekday()\<close>, Monday 0, and
    \<open>ValueError\<close> when \<open>s\<close> is not an ISO date;
  \<^item> \<open>now_timestamp n\<close> is \<open>int(datetime.now().timestamp())\<close> at the \<open>n\<close>-th reading of
    the clock, \<open>now_isoformat zone n\<close> is
    \<open>datetime.now(ZoneInfo(zone)).isoformat(timespec="seconds")\<close> there;
  \<^item> \<open>json_loads\<close> is \<open>json.loads\<close>;
  \<^item> \<open>zone_clock tz n\<close> is what \<open>get_current_datetime(tz)\<close> reads at the \<open>n\<close>-th reading of
    the clock: the ISO date-time, the ISO date and the weekday name in zone \<open>tz\<close>, or the
    exception \<open>ZoneInfo(tz)\<close> raises;
  \<^item> \<open>py_str v\<close> is \<open>str(v)\<close> for a decoded value that is neither a string nor \<open>None\<close>.
\<close>

record pylib =
  iso_weekday :: "string \<Rightarrow> py_error + nat"
  now_timestamp :: "nat \<Rightarrow> int"
  now_isoformat :: "string \<Rightarrow> nat \<Rightarrow> string"
  json_loads :: "string \<Rightarrow> py_error + json"
  zone_clock :: "json \<Rightarrow> nat \<Rightarrow> py_error + string \<times> string \<times> string"
  py_str :: "json \<Rightarrow> string"

section \<open>The CSV-backed store (clinic/tools.py)\<close>

text \<open>
  The doctors and the schedules file are what \<open>csv.DictReader\<close> returns for them, both
  taken to be well formed: one row per line, every column of the header a string. The
  program only reads them.

  The appointments file is read and written. It is absent, or it is kept as the rows
  \<open>csv.reader\<close> splits its text into, in the form they are read in (the header row, if the
  file has one, is the first), together with a flag that says that its last line has no
  line terminator. Two things about the text are not kept: an existing file is taken not
  to end inside a quoted field left open, and no field is longer than the 131072 characters
  past which \<open>csv.reader\<close> refuses a field.

  \<open>clock_reads\<close> counts the readings of the clock taken so far.
\<close>

record doctor_row =
  doc_name :: string
  doc_specialty :: string

record schedule_row =
  sched_doctor_name :: string
  sched_working_days :: string
  sched_slots :: string

datatype csv_file = File_Absent | File_Rows "string list list" bool

record world =
  doctors :: "doctor_row list"
  schedule_rows :: "schedule_row list"
  appointments_file :: csv_file
  clock_reads :: nat

text \<open>The record \<open>book_appointment\<close> builds and returns; the patient's name and phone are the
  values the caller passed.\<close>

record appointment =
  appointment_id :: string
  apt_doctor_name :: string
  apt_date_iso :: string
  apt_time_24h :: string
  apt_patient_name :: json
  apt_patient_phone :: json
  created_at :: string

record rule =
  working_days :: "nat list"
  slots :: "string list"

definition IST :: string where
  "IST = ''Asia/Kolkata''"

definition WEEKDAY_MAP :: "(string \<times> nat) list" where
  "WEEKDAY_MAP = [(''Mon'', 0), (''Tue'', 1), (''Wed'', 2), (''Thu'', 3),
                  (''Fri'', 4), (''Sat'', 5), (''Sun'', 6)]"

text \<open>\<open>[WEEKDAY_MAP[d] for d in ...]\<close>: the first unknown day name raises \<open>KeyError\<close>.\<close>

fun weekday_numbers :: "string list \<Rightarrow> py_error + nat list" where
  "weekday_numbers [] = Inr []"
| "weekday_numbers (d # ds) =
     (case map_of WEEKDAY_MAP d of
        None \<Rightarrow> Inl (KeyError d)
      | Some n \<Rightarrow> (case weekday_numbers ds of Inl e \<Rightarrow> Inl e | Inr ns \<Rightarrow> Inr (n # ns)))"

text \<open>\<open>load_schedules\<close>: the loop over the rows, a later row of a doctor replacing an
  earlier one.\<close>

fun load_schedules_rows ::
  "(string \<rightharpoonup> rule) \<Rightarrow> schedule_row list \<Rightarrow> py_error + (string \<rightharpoonup> rule)" where
  "load_schedules_rows schedules [] = Inr schedules"
| "load_schedules_rows schedules (row # rows) =
     (case weekday_numbers (split_whitespace (sched_working_days row)) of
        Inl e \<Rightarrow> Inl e
      | Inr days \<Rightarrow>
          load_schedules_rows
            (schedules(sched_doctor_name row \<mapsto>
               \<lparr>working_days = days, slots = split_sep (CHR ''|'') (sched_slots row)\<rparr>))
            rows)"

definition load_schedules :: "world \<Rightarrow> py_error + (string \<rightharpoonup> rule)" where
  "load_schedules w = load_schedules_rows Map.empty (schedule_rows w)"

definition load_doctors :: "world \<Rightarrow> doctor_row list" where
  "load_doctors w = doctors w"

text \<open>
  \<open>load_appointments\<close>: no file, no rows; otherwise \<open>list(csv.DictReader(f))\<close>. The first row
  the reader yields gives the field names, whatever it holds; empty rows after it are
  skipped; every other row becomes a dict from the field names to its cells, a later
  field of the same name replacing an earlier one, a field the row is too short for being
  \<open>None\<close>. (The cells a row has beyond the field names go under the key \<open>None\<close>, which no lookup
  of the program uses.)
\<close>

type_synonym csv_dict = "string \<rightharpoonup> string option"

definition dict_row :: "string list \<Rightarrow> string list \<Rightarrow> csv_dict" where
  "dict_row names row =
     map_of (rev (zip names (map Some row @ replicate (length names - length row) None)))"

definition dict_reader :: "string list list \<Rightarrow> csv_dict list" where
  "dict_reader rows =
     (case rows of [] \<Rightarrow> [] | names # later \<Rightarrow> map (dict_row names) [row \<leftarrow> later. row \<noteq> []])"

definition load_appointments :: "world \<Rightarrow> csv_dict list" where
  "load_appointments w =
     (case appointments_file w of
        File_Absent \<Rightarrow> []
      | File_Rows rows unterminated \<Rightarrow> dict_reader rows)"

text \<open>
  \<open>save_appointment\<close> opens the file for appending with \<open>newline=""\<close> and writes the record's
  values in the order of its keys: a string as it is, \<open>None\<close> as the empty text, any other
  value as \<open>str\<close> gives it. The header row is written only when the file did not exist.
  \<open>load_appointments\<close> opens the file without \<open>newline=""\<close>, so that every carriage return
  written, alone or before a newline, is read back as a newline (\<open>universal_newlines\<close>).
  Written after a last line that has no terminator, the first cell (the appointment
  identifier, which needs no quotes) continues the last cell of that line and the other
  cells follow it.
\<close>

definition APPOINTMENT_FIELDS :: "string list" where
  "APPOINTMENT_FIELDS =
     [''appointment_id'', ''doctor_name'', ''date_iso'', ''time_24h'',
      ''patient_name'', ''patient_phone'', ''created_at'']"

fun universal_newlines :: "string \<Rightarrow> string" where
  "universal_newlines [] = []"
| "universal_newlines [c] = [if c = CHR 0x0D then CHR 0x0A else c]"
| "universal_newlines (c # c' # cs) =
     (if c = CHR 0x0D
      then (if c' = CHR 0x0A then CHR 0x0A # universal_newlines cs
            else CHR 0x0A # universal_newlines (c' # cs))
      else c # universal_newlines (c' # cs))"

definition cell_text :: "pylib \<Rightarrow> json \<Rightarrow> string" where
  "cell_text lib v = (case v of JNull \<Rightarrow> [] | JString s \<Rightarrow> s | _ \<Rightarrow> py_str lib v)"

definition record_cells :: "pylib \<Rightarrow> appointment \<Rightarrow> string list" where
  "record_cells lib record =
     [appointment_id record, apt_doctor_name record, apt_date_iso record, apt_time_24h record,
      cell_text lib (apt_patient_name record), cell_text lib (apt_patient_phone record),
      created_at record]"

definition append_row :: "string list list \<Rightarrow> bool \<Rightarrow> string list \<Rightarrow> string list list" where
  "append_row rows unterminated cells =
     (if unterminated \<and> rows \<noteq> [] \<and> last rows \<noteq> [] \<and> cells \<noteq> []
      then butlast rows @ [butlast (last rows) @ [last (last rows) @ hd cells] @ tl cells]
      else rows @ [cells])"

definition save_appointment :: "pylib \<Rightarrow> appointment \<Rightarrow> world \<Rightarrow> world" where
  "save_appointment lib record w =
     (let cells = map universal_newlines (record_cells lib record) in
      w\<lparr>appointments_file :=
          (case appointments_file w of
             File_Absent \<Rightarrow> File_Rows [APPOINTMENT_FIELDS, cells] False
           | File_Rows rows unterminated \<Rightarrow> File_Rows (append_row rows unterminated cells) False)\<rparr>)"

section \<open>Tool APIs (clinic/tools.py)\<close>

definition list_specialties :: "world \<Rightarrow> string list" where
  "list_specialties w = sort (remdups (map doc_specialty (load_doctors w)))"

definition find_doctors :: "world \<Rightarrow> string \<Rightarrow> doctor_row list" where
  "find_doctors w sp =
     (let s = lower sp in [d \<leftarrow> load_doctors w. lower (doc_specialty d) = s])"

text \<open>
  The set \<open>booked\<close> of \<open>get_availability\<close>, as the list of its elements. The comprehension
  looks at the rows in order: \<open>a["doctor_name"]\<close>, then \<open>a["date_iso"]\<close> if the doctor is the
  one asked for, then \<open>a["time_24h"]\<close> if the date is too; the first key that a row lacks
  raises \<open>KeyError\<close>.
\<close>

fun booked :: "csv_dict list \<Rightarrow> string \<Rightarrow> string \<Rightarrow> py_error + string option list" where
  "booked [] d date = Inr []"
| "booked (a # rest) d date =
     (case a ''doctor_name'' of
        None \<Rightarrow> Inl (KeyError ''doctor_name'')
      | Some dn \<Rightarrow>
          if dn \<noteq> Some d then booked rest d date
          else
            (case a ''date_iso'' of
               None \<Rightarrow> Inl (KeyError ''date_iso'')
             | Some di \<Rightarrow>
                 if di \<noteq> Some date then booked rest d date
                 else
                   (case a ''time_24h'' of
                      None \<Rightarrow> Inl (KeyError ''time_24h'')
                    | Some tm \<Rightarrow>
                        (case booked rest d date of
                           Inl e \<Rightarrow> Inl e
                         | Inr taken \<Rightarrow> Inr (tm # taken)))))"

definition get_availability :: "pylib \<Rightarrow> world \<Rightarrow> string \<Rightarrow> string \<Rightarrow> py_error + string list" where
  "get_availability lib w d date =
     (case load_schedules w of
        Inl e \<Rightarrow> Inl e
      | Inr schedules \<Rightarrow>
          (let appointments = load_appointments w in
           (case schedules d of
              None \<Rightarrow> Inr []
            | Some r \<Rightarrow>
                (case iso_weekday lib date of
                   Inl e \<Rightarrow> Inl e
                 | Inr weekday \<Rightarrow>
                     if weekday \<notin> set (working_days r) then Inr []
                     else
                       (case booked appointments d date of
                          Inl e \<Rightarrow> Inl e
                        | Inr taken \<Rightarrow> Inr [s \<leftarrow> slots r. Some s \<notin> set taken])))))"

text \<open>\<open>patient["name"]\<close>: a missing key of a dict raises \<open>KeyError\<close>, and a value that is
  no dict has no string subscript.\<close>

fun subscript :: "json \<Rightarrow> string \<Rightarrow> py_error + json" where
  "subscript (JObject kvs) k = (case map_of kvs k of None \<Rightarrow> Inl (KeyError k) | Some v \<Rightarrow> Inr v)"
| "subscript v k = Inl TypeError"

text \<open>The decimal text of an integer, as an f-string writes it.\<close>

function str_nat :: "nat \<Rightarrow> string" where
  "str_nat n =
     (if n < 10 then [''0123456789'' ! n] else str_nat (n div 10) @ [''0123456789'' ! (n mod 10)])"
  by pat_completeness auto
termination
  by (relation "measure id") auto

declare str_nat.simps [simp del]

definition str_int :: "int \<Rightarrow> string" where
  "str_int i = (if i < 0 then CHR ''-'' # str_nat (nat (- i)) else str_nat (nat i))"

text \<open>What \<open>book_appointment\<close> returns: \<open>{"status": "failed", "reason": r}\<close> is
  \<open>Booking_Failed r\<close>, and \<open>{"status": "confirmed", "appointment": record}\<close> is
  \<open>Booking_Confirmed record\<close>.\<close>

datatype booking_result = Booking_Failed string | Booking_Confirmed appointment

definition book_appointment ::
  "pylib \<Rightarrow> world \<Rightarrow> string \<Rightarrow> string \<Rightarrow> string \<Rightarrow> json \<Rightarrow> py_error + booking_result \<times> world" where
  "book_appointment lib w d date t patient =
     (case get_availability lib w d date of
        Inl e \<Rightarrow> Inl e
      | Inr available \<Rightarrow>
          if t \<notin> set available then Inr (Booking_Failed ''slot_not_available'', w)
          else
            let appt_id = ''APT-'' @ str_int (now_timestamp lib (clock_reads w)) in
            (case subscript patient ''name'' of
               Inl e \<Rightarrow> Inl e
             | Inr name \<Rightarrow>
                 (case subscript patient ''phone'' of
                    Inl e \<Rightarrow> Inl e
                  | Inr phone \<Rightarrow>
                      let record = \<lparr>appointment_id = appt_id, apt_doctor_name = d,
                                     apt_date_iso = date, apt_time_24h = t,
                                     apt_patient_name = name, apt_patient_phone = phone,
                                     created_at = now_isoformat lib IST (clock_reads w + 1)\<rparr>
                      in Inr (Booking_Confirmed record,
                              save_appointment lib record (w\<lparr>clock_reads := clock_reads w + 2\<rparr>)))))"

text \<open>What \<open>get_current_datetime\<close> returns: the zone as passed, the ISO date-time, the ISO date
  and the weekday name. The tool results of the orchestrators are collected in one type.\<close>

datatype tool_result =
    Doctors_Result "doctor_row list"
  | Slots_Result "string list"
  | Booking_Result booking_result
  | Specialties_Result "string list"
  | Datetime_Result json string string string
  | State_Updated "string list"
  | Unknown_Tool string

definition get_current_datetime :: "pylib \<Rightarrow> world \<Rightarrow> json \<Rightarrow> py_error + tool_result \<times> world" where
  "get_current_datetime lib w tz =
     (case zone_clock lib tz (clock_reads w) of
        Inl e \<Rightarrow> Inl e
      | Inr (stamp, day, wd) \<Rightarrow>
          Inr (Datetime_Result tz stamp day wd, w\<lparr>clock_reads := clock_reads w + 1\<rparr>))"

section \<open>Conversation state (clinic/state.py)\<close>

record ConversationState =
  patient_name :: "string option"
  patient_age :: "int option"
  patient_phone :: "string option"
  specialty :: "string option"
  doctor_name :: "string option"
  date_iso :: "string option"
  time_24h :: "string option"

text \<open>Python's truth value of an \<open>Optional[str]\<close>, and \<open>a or b\<close>.\<close>

definition truthy :: "string option \<Rightarrow> bool" where
  "truthy v = (case v of None \<Rightarrow> False | Some s \<Rightarrow> s \<noteq> [])"

definition py_or :: "string option \<Rightarrow> string option \<Rightarrow> string option" where
  "py_or a b = (if truthy a then a else b)"

definition is_ready_to_book :: "ConversationState \<Rightarrow> bool" where
  "is_ready_to_book st =
     list_all truthy
       [patient_name st, patient_phone st, py_or (specialty st) (doctor_name st),
        doctor_name st, date_iso st, time_24h st]"

section \<open>Tool dispatch (assistant-tools-main.py, assistant-tools-state-main.py)\<close>

definition doctor_exists :: "world \<Rightarrow> string \<Rightarrow> bool" where
  "doctor_exists w name =
     list_ex (\<lambda>d. lower (strip (doc_name d)) = lower (strip name)) (load_doctors w)"

text \<open>\<open>args.get(k, default)\<close>: only a dict has \<open>get\<close>.\<close>

fun dict_get :: "json \<Rightarrow> string \<Rightarrow> json \<Rightarrow> py_error + json" where
  "dict_get (JObject kvs) k dflt = Inr (case map_of kvs k of None \<Rightarrow> dflt | Some v \<Rightarrow> v)"
| "dict_get v k dflt = Inl AttributeError"

text \<open>The truth value of a decoded value, and \<open>v or {}\<close>.\<close>

fun json_truthy :: "json \<Rightarrow> bool" where
  "json_truthy JNull = False"
| "json_truthy (JBool b) = b"
| "json_truthy (JInt i) = (i \<noteq> 0)"
| "json_truthy (JFloat r) = (r \<noteq> 0)"
| "json_truthy (JString s) = (s \<noteq> [])"
| "json_truthy (JArray xs) = (xs \<noteq> [])"
| "json_truthy (JObject kvs) = (kvs \<noteq> [])"

definition or_empty_dict :: "json \<Rightarrow> json" where
  "or_empty_dict v = (if json_truthy v then v else JObject [])"

text \<open>\<open>json.loads(arguments_json) if arguments_json else {}\<close>: the argument string of a tool
  call may be missing (\<open>None\<close>).\<close>

definition parse_arguments :: "pylib \<Rightarrow> string option \<Rightarrow> py_error + json" where
  "parse_arguments lib arguments_json =
     (case arguments_json of
        None \<Rightarrow> Inr (JObject [])
      | Some s \<Rightarrow> if s = [] then Inr (JObject []) else json_loads lib s)"

text \<open>
  The tool APIs are annotated with \<open>str\<close> arguments, but the dispatcher passes whatever the
  model's JSON holds. The functions \<open>call_...\<close> are the tool APIs on arbitrary decoded values:
  \<^item> \<open>specialty.lower()\<close> and \<open>name.strip()\<close> exist only for a string (\<open>AttributeError\<close>);
    \<open>any(...)\<close> over no doctors evaluates nothing;
  \<^item> \<open>doctor_name not in schedules\<close> hashes the name: a list or dict raises \<open>TypeError\<close>, any
    other value that is no string is simply no key;
  \<^item> \<open>datetime.fromisoformat\<close> raises \<open>TypeError\<close> on a value that is no string;
  \<^item> a time that is no string is in no slot list.
\<close>

definition call_find_doctors :: "world \<Rightarrow> json \<Rightarrow> py_error + doctor_row list" where
  "call_find_doctors w v = (case v of JString s \<Rightarrow> Inr (find_doctors w s) | _ \<Rightarrow> Inl AttributeError)"

definition call_doctor_exists :: "world \<Rightarrow> json \<Rightarrow> py_error + bool" where
  "call_doctor_exists w v =
     (case v of
        JString name \<Rightarrow> Inr (doctor_exists w name)
      | _ \<Rightarrow> if load_doctors w = [] then Inr False else Inl AttributeError)"

definition call_get_availability :: "pylib \<Rightarrow> world \<Rightarrow> json \<Rightarrow> json \<Rightarrow> py_error + string list" where
  "call_get_availability lib w dn di =
     (case dn of
        JString d \<Rightarrow>
          (case di of
             JString date \<Rightarrow> get_availability lib w d date
           | _ \<Rightarrow>
               (case load_schedules w of
                  Inl e \<Rightarrow> Inl e
                | Inr schedules \<Rightarrow> (case schedules d of None \<Rightarrow> Inr [] | Some r \<Rightarrow> Inl TypeError)))
      | JArray xs \<Rightarrow> (case load_schedules w of Inl e \<Rightarrow> Inl e | Inr schedules \<Rightarrow> Inl TypeError)
      | JObject kvs \<Rightarrow> (case load_schedules w of Inl e \<Rightarrow> Inl e | Inr schedules \<Rightarrow> Inl TypeError)
      | _ \<Rightarrow> (case load_schedules w of Inl e \<Rightarrow> Inl e | Inr schedules \<Rightarrow> Inr []))"

definition as_string :: "json \<Rightarrow> string option" where
  "as_string v = (case v of JString s \<Rightarrow> Some s | _ \<Rightarrow> None)"

definition call_book_appointment ::
  "pylib \<Rightarrow> world \<Rightarrow> json \<Rightarrow> json \<Rightarrow> json \<Rightarrow> json \<Rightarrow> py_error + booking_result \<times> world" where
  "call_book_appointment lib w dn di tm patient =
     (case (as_string dn, as_string di, as_string tm) of
        (Some d, Some date, Some t) \<Rightarrow> book_appointment lib w d date t patient
      | _ \<Rightarrow>
          (case call_get_availability lib w dn di of
             Inl e \<Rightarrow> Inl e
           | Inr available \<Rightarrow> Inr (Booking_Failed ''slot_not_available'', w)))"

text \<open>What the dispatcher returns for an availability lookup and for a booking: the exception,
  or the tool's value with the world it leaves.\<close>

definition slots_reply :: "world \<Rightarrow> py_error + string list \<Rightarrow> py_error + tool_result \<times> world" where
  "slots_reply w r = (case r of Inl e \<Rightarrow> Inl e | Inr available \<Rightarrow> Inr (Slots_Result available, w))"

definition booking_reply ::
  "py_error + booking_result \<times> world \<Rightarrow> py_error + tool_result \<times> world" where
  "booking_reply r = (case r of Inl e \<Rightarrow> Inl e | Inr (b, w') \<Rightarrow> Inr (Booking_Result b, w'))"

text \<open>The five branches the two \<open>execute_tool\<close> functions share, in the source's order;
  \<open>None\<close> when the tool name is none of the five.\<close>

definition clinic_tool ::
  "pylib \<Rightarrow> world \<Rightarrow> string \<Rightarrow> json \<Rightarrow> (py_error + tool_result \<times> world) option" where
  "clinic_tool lib w tool_name args =
     (if tool_name = ''find_doctors'' then
        Some (case dict_get args ''specialty'' (JString []) of
                Inl e \<Rightarrow> Inl e
              | Inr sp \<Rightarrow>
                  (case call_find_doctors w sp of
                     Inl e \<Rightarrow> Inl e
                   | Inr ds \<Rightarrow> Inr (Doctors_Result ds, w)))
      else if tool_name = ''get_availability'' then
        Some (case dict_get args ''doctor_name'' (JString []) of
                Inl e \<Rightarrow> Inl e
              | Inr dn \<Rightarrow>
                  (case dict_get args ''date_iso'' (JString []) of
                     Inl e \<Rightarrow> Inl e
                   | Inr di \<Rightarrow> slots_reply w (call_get_availability lib w dn di)))
      else if tool_name = ''book_appointment'' then
        Some (case dict_get args ''doctor_name'' (JString []) of
                Inl e \<Rightarrow> Inl e
              | Inr dn \<Rightarrow>
                  (case dict_get args ''date_iso'' (JString []) of
                     Inl e \<Rightarrow> Inl e
                   | Inr di \<Rightarrow>
                       (case dict_get args ''time_24h'' (JString []) of
                          Inl e \<Rightarrow> Inl e
                        | Inr tm \<Rightarrow>
                            (case dict_get args ''patient'' (JObject []) of
                               Inl e \<Rightarrow> Inl e
                             | Inr p \<Rightarrow>
                                 booking_reply
                                   (call_book_appointment lib w dn di tm (or_empty_dict p))))))
      else if tool_name = ''list_specialties'' then
        Some (Inr (Specialties_Result (list_specialties w), w))
      else if tool_name = ''get_current_datetime'' then
        Some (case dict_get args ''timezone'' (JString ''Asia/Kolkata'') of
                Inl e \<Rightarrow> Inl e
              | Inr tz \<Rightarrow> get_current_datetime lib w tz)
      else None)"

text \<open>\<open>execute_tool\<close> of assistant-tools-main.py.\<close>

definition execute_tool ::
  "pylib \<Rightarrow> world \<Rightarrow> string \<Rightarrow> string option \<Rightarrow> py_error + tool_result \<times> world" where
  "execute_tool lib w tool_name arguments_json =
     (case parse_arguments lib arguments_json of
        Inl e \<Rightarrow> Inl e
      | Inr args \<Rightarrow>
          (case clinic_tool lib w tool_name args of
             Some r \<Rightarrow> r
           | None \<Rightarrow> Inr (Unknown_Tool tool_name, w)))"

text \<open>
  \<open>execute_tool\<close> of assistant-tools-state-main.py, with the booking state, a dict from the
  seven field names to a value or \<open>None\<close> (\<open>JNull\<close>). The loop of \<open>update_state\<close> is
  \<open>apply_updates\<close>; \<open>updates.items()\<close> exists only for a dict.
\<close>

type_synonym booking_state = "string \<rightharpoonup> json"

definition initial_state :: booking_state where
  "initial_state =
     map_of (map (\<lambda>k. (k, JNull))
       [''patient_name'', ''patient_age'', ''patient_phone'', ''specialty'',
        ''doctor_name'', ''date_iso'', ''time_24h''])"

fun apply_updates :: "booking_state \<Rightarrow> (string \<times> json) list \<Rightarrow> booking_state" where
  "apply_updates state [] = state"
| "apply_updates state ((k, v) # updates) =
     apply_updates (if state k \<noteq> None then state(k \<mapsto> v) else state) updates"

definition update_state :: "booking_state \<Rightarrow> json \<Rightarrow> py_error + tool_result \<times> booking_state" where
  "update_state state args =
     (case args of
        JObject updates \<Rightarrow> Inr (State_Updated (map fst updates), apply_updates state updates)
      | _ \<Rightarrow> Inl AttributeError)"

definition execute_tool_state ::
  "pylib \<Rightarrow> world \<Rightarrow> booking_state \<Rightarrow> string \<Rightarrow> string option \<Rightarrow>
     py_error + tool_result \<times> world \<times> booking_state" where
  "execute_tool_state lib w state tool_name arguments_json =
     (case parse_arguments lib arguments_json of
        Inl e \<Rightarrow> Inl e
      | Inr args \<Rightarrow>
          (case clinic_tool lib w tool_name args of
             Some r \<Rightarrow> (case r of Inl e \<Rightarrow> Inl e | Inr (result, w') \<Rightarrow> Inr (result, w', state))
           | None \<Rightarrow>
               if tool_name = ''update_state'' then
                 (case update_state state args of
                    Inl e \<Rightarrow> Inl e
                  | Inr (result, state') \<Rightarrow> Inr (result, w, state'))
               else Inr (Unknown_Tool tool_name, w, state)))"

section \<open>The guarded orchestrator (assistant-tools-main.py)\<close>

text \<open>
  A tool call of the model: the function's name, its argument string and the call id. The
  assistant message carries its text and its tool calls (\<open>tool_calls\<close> missing or null is
  the empty list). The transcript keeps a tool result as the value that \<open>json.dumps\<close>
  writes.
\<close>

record tool_call =
  tc_name :: string
  tc_arguments :: "string option"
  tc_id :: "string option"

record assistant_msg =
  content :: "string option"
  tool_calls :: "tool_call list"

datatype message =
    System_Msg string
  | User_Msg string
  | Assistant_Msg assistant_msg
  | Tool_Msg "string option" tool_result

definition no_doctors_reply :: string where
  "no_doctors_reply =
     ''Sorry, we do not have any doctors with that specialty at Super Clinic. '' @
     ''Is there anything else I can help you with?''"

text \<open>The guard before a tool runs: \<open>json.loads(args_json)\<close> directly (a missing argument
  string is a \<open>TypeError\<close> there), then \<open>doctor_exists\<close>. \<open>True\<close> lets the call through.\<close>

definition availability_guard :: "pylib \<Rightarrow> world \<Rightarrow> tool_call \<Rightarrow> py_error + bool" where
  "availability_guard lib w tc =
     (if tc_name tc = ''get_availability'' then
        (case (case tc_arguments tc of None \<Rightarrow> Inl TypeError | Some s \<Rightarrow> json_loads lib s) of
           Inl e \<Rightarrow> Inl e
         | Inr args \<Rightarrow>
             (case dict_get args ''doctor_name'' (JString []) of
                Inl e \<Rightarrow> Inl e
              | Inr name \<Rightarrow> call_doctor_exists w name))
      else Inr True)"

text \<open>The \<open>for\<close> loop over one batch of tool calls. \<open>Some reply\<close> is the \<open>return\<close> of a guard
  from inside the loop, \<open>None\<close> the end of the batch.\<close>

fun run_tool_calls ::
  "pylib \<Rightarrow> world \<Rightarrow> message list \<Rightarrow> tool_call list \<Rightarrow>
     py_error + string option \<times> world \<times> message list" where
  "run_tool_calls lib w msgs [] = Inr (None, w, msgs)"
| "run_tool_calls lib w msgs (tc # tcs) =
     (case availability_guard lib w tc of
        Inl e \<Rightarrow> Inl e
      | Inr ok \<Rightarrow>
          if \<not> ok then Inr (Some no_doctors_reply, w, msgs)
          else
            (case execute_tool lib w (tc_name tc) (tc_arguments tc) of
               Inl e \<Rightarrow> Inl e
             | Inr (result, w') \<Rightarrow>
                 if tc_name tc = ''find_doctors'' \<and> result = Doctors_Result []
                 then Inr (Some no_doctors_reply, w', msgs)
                 else run_tool_calls lib w' (msgs @ [Tool_Msg (tc_id tc) result]) tcs))"

text \<open>
  \<open>run_turn\<close>: the \<open>while True\<close> loop. The model is the list of the answers \<open>call_llm\<close> gives
  (or the exception it raises), one per round trip; the loop ends with the reply, the world,
  the transcript and the answers not yet asked for. When the answers run out while the loop
  still waits for the model, the result is \<open>None\<close>.
\<close>

record turn_result =
  reply :: string
  world_after :: world
  transcript :: "message list"
  unread :: "(py_error + assistant_msg) list"

fun run_turn ::
  "pylib \<Rightarrow> (py_error + assistant_msg) list \<Rightarrow> world \<Rightarrow> message list \<Rightarrow>
     (py_error + turn_result) option" where
  "run_turn lib [] w msgs = None"
| "run_turn lib (answer # answers) w msgs =
     (case answer of
        Inl e \<Rightarrow> Some (Inl e)
      | Inr assistant \<Rightarrow>
          if tool_calls assistant = [] then
            Some (Inr \<lparr>reply = (case content assistant of None \<Rightarrow> [] | Some c \<Rightarrow> c),
                       world_after = w, transcript = msgs @ [Assistant_Msg assistant],
                       unread = answers\<rparr>)
          else
            (case run_tool_calls lib w (msgs @ [Assistant_Msg assistant]) (tool_calls assistant) of
               Inl e \<Rightarrow> Some (Inl e)
             | Inr (Some r, w', msgs') \<Rightarrow>
                 Some (Inr \<lparr>reply = r, world_after = w', transcript = msgs', unread = answers\<rparr>)
             | Inr (None, w', msgs') \<Rightarrow> run_turn lib answers w' msgs'))"

section \<open>Running the model on concrete data\<close>

text \<open>
  \<open>datetime.fromisoformat(s).date().weekday()\<close>, Monday 0, from the proleptic Gregorian
  ordinal of the date, on two of the formats Python accepts: \<open>YYYY-MM-DD\<close>, and the same
  followed by \<open>T\<close>, a space, a carriage return or a newline and a time \<open>HH:MM\<close>. Every other
  text is \<open>ValueError\<close> here; the examples use none that Python accepts.
\<close>

definition digit_value :: "char \<Rightarrow> nat option" where
  "digit_value c = map_of (zip ''0123456789'' [0 ..< 10]) c"

fun digits_value :: "nat \<Rightarrow> string \<Rightarrow> nat option" where
  "digits_value acc [] = Some acc"
| "digits_value acc (c # cs) =
     (case digit_value c of None \<Rightarrow> None | Some v \<Rightarrow> digits_value (10 * acc + v) cs)"

definition is_leap :: "nat \<Rightarrow> bool" where
  "is_leap y = (y mod 4 = 0 \<and> (y mod 400 = 0 \<or> y mod 100 \<noteq> 0))"

definition days_in_month :: "nat \<Rightarrow> nat \<Rightarrow> nat" where
  "days_in_month y m =
     (if m = 2 then (if is_leap y then 29 else 28)
      else if m \<in> set [4, 6, 9, 11] then 30 else 31)"

definition days_before_year :: "nat \<Rightarrow> nat" where
  "days_before_year y = (let p = y - 1 in p * 365 + p div 4 - p div 100 + p div 400)"

definition days_before_month :: "nat \<Rightarrow> nat \<Rightarrow> nat" where
  "days_before_month y m = sum_list (map (days_in_month y) [1..<m])"

definition ymd_weekday :: "nat \<Rightarrow> nat \<Rightarrow> nat \<Rightarrow> py_error + nat" where
  "ymd_weekday y m d =
     (if 1 \<le> y \<and> y \<le> 9999 \<and> 1 \<le> m \<and> m \<le> 12 \<and> 1 \<le> d \<and> d \<le> days_in_month y m
      then Inr ((days_before_year y + days_before_month y m + d + 6) mod 7)
      else Inl ValueError)"

definition date_weekday :: "string \<Rightarrow> py_error + nat" where
  "date_weekday s =
     (case s of
        [y1, y2, y3, y4, h1, m1, m2, h2, d1, d2] \<Rightarrow>
          (if h1 = CHR ''-'' \<and> h2 = CHR ''-'' then
             (case (digits_value 0 [y1, y2, y3, y4], digits_value 0 [m1, m2], digits_value 0 [d1, d2]) of
                (Some y, Some m, Some d) \<Rightarrow> ymd_weekday y m d
              | _ \<Rightarrow> Inl ValueError)
           else Inl ValueError)
      | _ \<Rightarrow> Inl ValueError)"

definition is_time :: "string \<Rightarrow> bool" where
  "is_time s =
     (case s of
        [h1, h2, c, m1, m2] \<Rightarrow>
          (case (digits_value 0 [h1, h2], digits_value 0 [m1, m2]) of
             (Some h, Some m) \<Rightarrow> c = CHR '':'' \<and> h < 24 \<and> m < 60
           | _ \<Rightarrow> False)
      | _ \<Rightarrow> False)"

definition iso_weekday_ymd :: "string \<Rightarrow> py_error + nat" where
  "iso_weekday_ymd s =
     (if length s = 10 then date_weekday s
      else if length s = 16 \<and> s ! 10 \<in> set [CHR ''T'', CHR '' '', CHR 0x0D, CHR 0x0A] \<and>
              is_time (drop 11 s)
      then date_weekday (take 10 s)
      else Inl ValueError)"

text \<open>
  A clock whose seconds advance every fourth reading, \<open>json.loads\<close> on the argument strings
  of the examples (any other text counts as undecodable there), \<open>str\<close> on no value at all (the
  examples pass strings), and a small clinic: Dr X works Monday to Wednesday with three
  slots, Dr A has no schedule, and there is no appointments file yet.
\<close>

definition sample_json_loads :: "string \<Rightarrow> py_error + json" where
  "sample_json_loads s =
     (case map_of
        [(''{\"doctor_name\": \"Orthopedics\", \"date_iso\": \"2025-12-23\"}'',
          JObject [(''doctor_name'', JString ''Orthopedics''), (''date_iso'', JString ''2025-12-23'')]),
         (''{\"doctor_name\": \" dr x\", \"date_iso\": \"2025-12-23\"}'',
          JObject [(''doctor_name'', JString '' dr x''), (''date_iso'', JString ''2025-12-23'')]),
         (''{\"doctor_name\": \"Dr X\"}'',
          JObject [(''doctor_name'', JString ''Dr X'')]),
         (''{\"doctor_name\": \"Dr X\", \"time_24h\": \"10:00\"}'',
          JObject [(''doctor_name'', JString ''Dr X''), (''time_24h'', JString ''10:00'')]),
         (''{\"doctor_name\": \"Dr X\", \"date_iso\": \"2025-12-23\", \"time_24h\": \"10:00\"}'',
          JObject [(''doctor_name'', JString ''Dr X''), (''date_iso'', JString ''2025-12-23''),
                   (''time_24h'', JString ''10:00'')]),
         (''{\"specialty\": \"Orthopedics\"}'',
          JObject [(''specialty'', JString ''Orthopedics'')]),
         (''{\"nickname\": \"Bob\"}'',
          JObject [(''nickname'', JString ''Bob'')])] s of
        None \<Rightarrow> Inl JSONDecodeError
      | Some v \<Rightarrow> Inr v)"

definition sample_lib :: pylib where
  "sample_lib =
     \<lparr>iso_weekday = iso_weekday_ymd,
      now_timestamp = (\<lambda>n. 1766480000 + int (n div 4)),
      now_isoformat = (\<lambda>zone n. ''2025-12-23T14:23:20+05:30''),
      json_loads = sample_json_loads,
      zone_clock = (\<lambda>tz n. if tz = JString ''Asia/Kolkata''
                              then Inr (''2025-12-23T14:23:20+05:30'', ''2025-12-23'', ''Tuesday'')
                              else Inl ZoneInfoNotFoundError),
      py_str = (\<lambda>v. [])\<rparr>"

definition sample_world :: world where
  "sample_world =
     \<lparr>doctors = [\<lparr>doc_name = ''Dr X'', doc_specialty = ''Orthopedics''\<rparr>,
                 \<lparr>doc_name = ''Dr A'', doc_specialty = ''General Medicine''\<rparr>],
      schedule_rows = [\<lparr>sched_doctor_name = ''Dr X'', sched_working_days = ''Mon Tue Wed'',
                         sched_slots = ''10:00|11:00|12:00''\<rparr>],
      appointments_file = File_Absent,
      clock_reads = 0\<rparr>"

definition sample_patient :: json where
  "sample_patient = JObject [(''name'', JString ''Bala''), (''phone'', JString ''9999999999'')]"

text \<open>The record the first booking of the examples returns for a date and a slot, the row
  it is read back as, and the clinic after Dr X's 10:00 slot on Tuesday 2025-12-23 has
  been booked.\<close>

definition sample_appointment :: "string \<Rightarrow> string \<Rightarrow> appointment" where
  "sample_appointment date t =
     \<lparr>appointment_id = ''APT-1766480000'', apt_doctor_name = ''Dr X'',
      apt_date_iso = date, apt_time_24h = t,
      apt_patient_name = JString ''Bala'', apt_patient_phone = JString ''9999999999'',
      created_at = ''2025-12-23T14:23:20+05:30''\<rparr>"

definition sample_cells :: "string \<Rightarrow> string \<Rightarrow> string list" where
  "sample_cells date t =
     [''APT-1766480000'', ''Dr X'', date, t, ''Bala'', ''9999999999'', ''2025-12-23T14:23:20+05:30'']"

definition sample_booked :: world where
  "sample_booked =
     sample_world\<lparr>appointments_file :=
                    File_Rows [APPOINTMENT_FIELDS, sample_cells ''2025-12-23'' ''10:00''] False,
                  clock_reads := 2\<rparr>"

text \<open>
  An appointments file that exists and is empty, and the date on which the examples
  double a booking: Tuesday 2025-12-23 with the time 10:00 after a carriage return, and
  the same with a newline.
\<close>

definition sample_empty_file :: world where
  "sample_empty_file = sample_world\<lparr>appointments_file := File_Rows [] False\<rparr>"

definition sample_cr_date :: string where
  "sample_cr_date = ''2025-12-23'' @ [CHR 0x0D] @ ''10:00''"

definition sample_lf_date :: string where
  "sample_lf_date = ''2025-12-23'' @ [CHR 0x0A] @ ''10:00''"

text \<open>The clinic after Dr X's 10:00 slot has been booked for the date with the carriage
  return, and the store that two bookings of Dr X's 10:00 slot on 2025-12-23 leave when the
  appointments file was there, empty, before the first.\<close>

definition sample_cr_booked :: world where
  "sample_cr_booked =
     sample_world\<lparr>appointments_file :=
                    File_Rows [APPOINTMENT_FIELDS, sample_cells sample_lf_date ''10:00''] False,
                  clock_reads := 2\<rparr>"

definition sample_headerless :: world where
  "sample_headerless =
     sample_world\<lparr>appointments_file :=
                    File_Rows [sample_cells ''2025-12-23'' ''10:00'',
                               sample_cells ''2025-12-23'' ''10:00''] False,
                  clock_reads := 4\<rparr>"

text \<open>A booking state whose patient name is the empty string; a clinic in which a second
  doctor is scheduled under the lower-case spelling of Dr X's name; and a clinic whose
  doctor table does not list the scheduled Dr X.\<close>

definition sample_state :: ConversationState where
  "sample_state =
     \<lparr>patient_name = Some [], patient_age = None, patient_phone = Some ''9999999999'',
      specialty = Some ''Orthopedics'', doctor_name = Some ''Dr X'',
      date_iso = Some ''2025-12-23'', time_24h = Some ''10:00''\<rparr>"

definition sample_namesake :: world where
  "sample_namesake =
     sample_world\<lparr>schedule_rows :=
       schedule_rows sample_world @
         [\<lparr>sched_doctor_name = ''dr x'', sched_working_days = ''Tue'', sched_slots = ''09:00''\<rparr>]\<rparr>"

definition sample_unlisted :: world where
  "sample_unlisted =
     sample_world\<lparr>doctors := [\<lparr>doc_name = ''Dr A'', doc_specialty = ''General Medicine''\<rparr>]\<rparr>"

text \<open>Tool calls and assistant messages of the examples: a doctor search, an availability
  lookup that names a specialty, one that names Dr X in lower case after a space, a call
  without an argument string, and a final answer.\<close>

definition sample_find_call :: tool_call where
  "sample_find_call =
     \<lparr>tc_name = ''find_doctors'', tc_arguments = Some ''{\"specialty\": \"Orthopedics\"}'',
      tc_id = Some ''call_1''\<rparr>"

definition sample_specialty_call :: tool_call where
  "sample_specialty_call =
     \<lparr>tc_name = ''get_availability'',
      tc_arguments = Some ''{\"doctor_name\": \"Orthopedics\", \"date_iso\": \"2025-12-23\"}'',
      tc_id = Some ''call_2''\<rparr>"

definition sample_spaced_call :: tool_call where
  "sample_spaced_call =
     \<lparr>tc_name = ''get_availability'',
      tc_arguments = Some ''{\"doctor_name\": \" dr x\", \"date_iso\": \"2025-12-23\"}'',
      tc_id = Some ''call_1''\<rparr>"

definition sample_list_call :: tool_call where
  "sample_list_call = \<lparr>tc_name = ''list_specialties'', tc_arguments = None, tc_id = Some ''call_3''\<rparr>"

definition sample_final :: assistant_msg where
  "sample_final = \<lparr>content = Some ''Dr X has no free slot on that day.'', tool_calls = []\<rparr>"

lemmas sample_simps =
  sample_lib_def sample_world_def sample_patient_def sample_json_loads_def
  sample_appointment_def sample_cells_def sample_booked_def sample_state_def sample_namesake_def
  sample_unlisted_def sample_empty_file_def sample_cr_date_def
  sample_lf_date_def sample_cr_booked_def sample_headerless_def
  lower_def lower_char_def CAPITALS_def SMALL_LETTERS_def strip_def
  sample_find_call_def sample_specialty_call_def sample_spaced_call_def sample_list_call_def
  sample_final_def
  iso_weekday_ymd_def date_weekday_def is_time_def digit_value_def ymd_weekday_def
  days_in_month_def days_before_month_def days_before_year_def is_leap_def upt_rec
  load_schedules_def load_appointments_def load_doctors_def split_whitespace_def split_sep_def
  is_space_def WEEKDAY_MAP_def dict_reader_def dict_row_def save_appointment_def
  append_row_def record_cells_def cell_text_def APPOINTMENT_FIELDS_def
  str_int_def str_nat.simps IST_def Let_def

section \<open>Availability and booking\<close>

lemma load_schedules_rows_dom:
  "load_schedules_rows acc rows = Inr sch \<Longrightarrow> dom sch = dom acc \<union> sched_doctor_name ` set rows"
  by (induction rows arbitrary: acc) (auto split: sum.splits)

lemma load_schedules_dom:
  "load_schedules w = Inr sch \<Longrightarrow> dom sch = sched_doctor_name ` set (schedule_rows w)"
  by (simp add: load_schedules_def load_schedules_rows_dom)




lemma sample_schedules:
  "load_schedules sample_world =
     Inr [''Dr X'' \<mapsto> \<lparr>working_days = [0, 1, 2], slots = [''10:00'', ''11:00'', ''12:00'']\<rparr>]"
  by (simp add: sample_simps)





text \<open>
  Claim C2. \<open>book_appointment\<close> computes the availability on the store as it is at the time of
  the booking. When the requested time is not in it, the result is the structured failure
  with the reason \<open>slot_not_available\<close> (the code's spelling of the reason) and the world,
  the appointment store included, is the one it was called with.
\<close>

theorem book_appointment_unavailable:
  assumes "get_availability lib w d date = Inr available" and "t \<notin> set available"
  shows "book_appointment lib w d date t patient = Inr (Booking_Failed ''slot_not_available'', w)"
  using assms by (simp add: book_appointment_def)

text \<open>Dr X's 10:00 slot is taken in \<open>sample_booked\<close>; asking for it again fails and stores
  nothing.\<close>

theorem book_appointment_unavailable_witness:
  "get_availability sample_lib sample_booked ''Dr X'' ''2025-12-23'' = Inr [''11:00'', ''12:00''] \<and>
   ''10:00'' \<notin> set [''11:00'', ''12:00''] \<and>
   book_appointment sample_lib sample_booked ''Dr X'' ''2025-12-23'' ''10:00'' sample_patient =
     Inr (Booking_Failed ''slot_not_available'', sample_booked)"
proof -
  have a: "get_availability sample_lib sample_booked ''Dr X'' ''2025-12-23'' = Inr [''11:00'', ''12:00'']"
    by (simp add: get_availability_def sample_simps)
  have b: "''10:00'' \<notin> set [''11:00'', ''12:00'']" by simp
  from a b book_appointment_unavailable [OF a b] show ?thesis by simp
qed

text \<open>
  Claim C3 fails in the code. A record is written with \<open>newline=""\<close> and read back with
  universal newlines, so a date string that holds a carriage return comes back with a
  newline in its place and never equals the date asked for: Dr X's 10:00 slot is booked
  for the date string \<open>2025-12-23\<close>, carriage return, \<open>10:00\<close> (a Tuesday for
  \<open>datetime.fromisoformat\<close>), and the same booking made again is confirmed again and stored
  again. And the header row is written only when the file is missing: when
  \<open>appointments.csv\<close> is there and empty, the first record is read back as the field names,
  and the second booking of Dr X's 10:00 slot on 2025-12-23 is confirmed as the first was.
\<close>

theorem double_booking_confirmed_twice:
  "book_appointment sample_lib sample_world ''Dr X'' sample_cr_date ''10:00'' sample_patient =
     Inr (Booking_Confirmed (sample_appointment sample_cr_date ''10:00''), sample_cr_booked) \<and>
   book_appointment sample_lib sample_cr_booked ''Dr X'' sample_cr_date ''10:00'' sample_patient =
     Inr (Booking_Confirmed (sample_appointment sample_cr_date ''10:00''),
          sample_world\<lparr>appointments_file :=
                         File_Rows [APPOINTMENT_FIELDS, sample_cells sample_lf_date ''10:00'',
                                    sample_cells sample_lf_date ''10:00''] False,
                       clock_reads := 4\<rparr>) \<and>
   book_appointment sample_lib sample_empty_file ''Dr X'' ''2025-12-23'' ''10:00'' sample_patient =
     Inr (Booking_Confirmed (sample_appointment ''2025-12-23'' ''10:00''),
          sample_world\<lparr>appointments_file := File_Rows [sample_cells ''2025-12-23'' ''10:00''] False,
                       clock_reads := 2\<rparr>) \<and>
   book_appointment sample_lib
       (sample_world\<lparr>appointments_file := File_Rows [sample_cells ''2025-12-23'' ''10:00''] False,
                     clock_reads := 2\<rparr>)
       ''Dr X'' ''2025-12-23'' ''10:00'' sample_patient =
     Inr (Booking_Confirmed (sample_appointment ''2025-12-23'' ''10:00''), sample_headerless)"
  by (simp add: book_appointment_def get_availability_def sample_simps)

text \<open>
  Claim C4 fails in the code, for the same two reasons. After the confirmed booking of
  Dr X's 10:00 slot for the date string with the carriage return, the availability of
  Dr X for that date string still offers 10:00, and the availability for another date
  string, the one with a newline in its place, has lost 10:00. After the confirmed
  booking of the 10:00 slot on 2025-12-23 into an appointments file that was there and
  empty, the availability of Dr X on 2025-12-23 still offers 10:00.
\<close>

theorem booked_slot_stays_available:
  "get_availability sample_lib sample_world ''Dr X'' sample_cr_date = Inr [''10:00'', ''11:00'', ''12:00''] \<and>
   get_availability sample_lib sample_world ''Dr X'' sample_lf_date = Inr [''10:00'', ''11:00'', ''12:00''] \<and>
   book_appointment sample_lib sample_world ''Dr X'' sample_cr_date ''10:00'' sample_patient =
     Inr (Booking_Confirmed (sample_appointment sample_cr_date ''10:00''), sample_cr_booked) \<and>
   get_availability sample_lib sample_cr_booked ''Dr X'' sample_cr_date = Inr [''10:00'', ''11:00'', ''12:00''] \<and>
   get_availability sample_lib sample_cr_booked ''Dr X'' sample_lf_date = Inr [''11:00'', ''12:00''] \<and>
   sample_cr_date \<noteq> sample_lf_date \<and>
   get_availability sample_lib sample_empty_file ''Dr X'' ''2025-12-23'' = Inr [''10:00'', ''11:00'', ''12:00''] \<and>
   book_appointment sample_lib sample_empty_file ''Dr X'' ''2025-12-23'' ''10:00'' sample_patient =
     Inr (Booking_Confirmed (sample_appointment ''2025-12-23'' ''10:00''),
          sample_world\<lparr>appointments_file := File_Rows [sample_cells ''2025-12-23'' ''10:00''] False,
                       clock_reads := 2\<rparr>) \<and>
   get_availability sample_lib
       (sample_world\<lparr>appointments_file := File_Rows [sample_cells ''2025-12-23'' ''10:00''] False,
                     clock_reads := 2\<rparr>)
       ''Dr X'' ''2025-12-23'' = Inr [''10:00'', ''11:00'', ''12:00'']"
  by (simp add: book_appointment_def get_availability_def sample_simps)

text \<open>
  Where the two claims do hold: the appointments file is missing, or begins with the header
  \<open>save_appointment\<close> writes and ends with a line terminator, and the doctor name, the date
  string and the time hold no carriage return. Then the record of a confirmed booking is
  read back as it was written, a second booking of the same doctor, date string and time
  fails, and the booking removes its time from the availability of its doctor and date
  string and changes no other.
\<close>

lemma universal_newlines_plain:
  "CHR 0x0D \<notin> set s \<Longrightarrow> universal_newlines s = s"
  by (induction s rule: universal_newlines.induct) auto

lemma booked_append:
  "booked (xs @ ys) d date =
     (case booked xs d date of
        Inl e \<Rightarrow> Inl e
      | Inr taken \<Rightarrow> (case booked ys d date of Inl e \<Rightarrow> Inl e | Inr later \<Rightarrow> Inr (taken @ later)))"
  by (induction xs) (auto split: option.splits sum.splits)

lemma filter_conj_removeAll:
  "[s \<leftarrow> xs. s \<noteq> t \<and> P s] = removeAll t [s \<leftarrow> xs. P s]"
  by (induction xs) auto

lemma book_appointment_confirmed:
  assumes "book_appointment lib w d date t patient = Inr (Booking_Confirmed apt, w')"
  shows "\<exists>available. get_availability lib w d date = Inr available \<and> t \<in> set available \<and>
           apt_doctor_name apt = d \<and> apt_date_iso apt = date \<and> apt_time_24h apt = t \<and>
           appointment_id apt = ''APT-'' @ str_int (now_timestamp lib (clock_reads w)) \<and>
           created_at apt = now_isoformat lib IST (clock_reads w + 1) \<and>
           w' = save_appointment lib apt (w\<lparr>clock_reads := clock_reads w + 2\<rparr>)"
  using assms
  by (auto simp: book_appointment_def Let_def split: sum.splits if_splits)

lemma clock_reads_frame:
  "load_schedules (w\<lparr>clock_reads := n\<rparr>) = load_schedules w"
  "load_appointments (w\<lparr>clock_reads := n\<rparr>) = load_appointments w"
  by (simp_all add: load_schedules_def load_appointments_def)

lemma load_after_save:
  assumes "appointments_file w = File_Absent \<or>
           (\<exists>rows. appointments_file w = File_Rows (APPOINTMENT_FIELDS # rows) False)"
  shows "load_appointments (save_appointment lib apt w) =
           load_appointments w @
             [dict_row APPOINTMENT_FIELDS (map universal_newlines (record_cells lib apt))]"
  using assms
  by (auto simp: load_appointments_def save_appointment_def dict_reader_def append_row_def
        record_cells_def Let_def)

lemma saved_row_fields:
  "dict_row APPOINTMENT_FIELDS (map universal_newlines (record_cells lib apt)) ''doctor_name'' =
     Some (Some (universal_newlines (apt_doctor_name apt)))"
  "dict_row APPOINTMENT_FIELDS (map universal_newlines (record_cells lib apt)) ''date_iso'' =
     Some (Some (universal_newlines (apt_date_iso apt)))"
  "dict_row APPOINTMENT_FIELDS (map universal_newlines (record_cells lib apt)) ''time_24h'' =
     Some (Some (universal_newlines (apt_time_24h apt)))"
  by (simp_all add: dict_row_def APPOINTMENT_FIELDS_def record_cells_def)

lemma get_availability_after_save:
  assumes "appointments_file w = File_Absent \<or>
           (\<exists>rows. appointments_file w = File_Rows (APPOINTMENT_FIELDS # rows) False)"
    and "CHR 0x0D \<notin> set (apt_doctor_name apt) \<union> set (apt_date_iso apt) \<union> set (apt_time_24h apt)"
  shows "get_availability lib (save_appointment lib apt w) d date =
           (case get_availability lib w d date of
              Inl e \<Rightarrow> Inl e
            | Inr available \<Rightarrow>
                Inr (if apt_doctor_name apt = d \<and> apt_date_iso apt = date
                     then removeAll (apt_time_24h apt) available else available))"
proof -
  let ?row = "dict_row APPOINTMENT_FIELDS (map universal_newlines (record_cells lib apt))"
  have schedules: "load_schedules (save_appointment lib apt w) = load_schedules w"
    by (simp add: load_schedules_def save_appointment_def Let_def)
  from assms(2) have row: "?row ''doctor_name'' = Some (Some (apt_doctor_name apt))"
    "?row ''date_iso'' = Some (Some (apt_date_iso apt))"
    "?row ''time_24h'' = Some (Some (apt_time_24h apt))"
    by (simp_all add: saved_row_fields universal_newlines_plain)
  have one: "booked [?row] d date =
      Inr (if apt_doctor_name apt = d \<and> apt_date_iso apt = date then [Some (apt_time_24h apt)] else [])"
    by (simp add: row)
  have after: "booked (load_appointments (save_appointment lib apt w)) d date =
      (case booked (load_appointments w) d date of
         Inl e \<Rightarrow> Inl e
       | Inr taken \<Rightarrow>
           Inr (taken @ (if apt_doctor_name apt = d \<and> apt_date_iso apt = date
                         then [Some (apt_time_24h apt)] else [])))"
    by (simp only: load_after_save [OF assms(1)] booked_append one sum.case)
  show ?thesis
    by (auto simp: get_availability_def schedules after filter_conj_removeAll Let_def
          split: sum.splits option.splits)
qed

lemma double_booking_fails_on_written_file:
  assumes "book_appointment lib w d date t patient = Inr (Booking_Confirmed apt, w')"
    and "appointments_file w = File_Absent \<or>
         (\<exists>rows. appointments_file w = File_Rows (APPOINTMENT_FIELDS # rows) False)"
    and "CHR 0x0D \<notin> set d \<union> set date \<union> set t"
  shows "book_appointment lib w' d date t patient' = Inr (Booking_Failed ''slot_not_available'', w')"
proof -
  from book_appointment_confirmed [OF assms(1)] obtain available where
    av: "get_availability lib w d date = Inr available" and
    apt: "apt_doctor_name apt = d" "apt_date_iso apt = date" "apt_time_24h apt = t" and
    w': "w' = save_appointment lib apt (w\<lparr>clock_reads := clock_reads w + 2\<rparr>)"
    by blast
  have same: "get_availability lib (w\<lparr>clock_reads := clock_reads w + 2\<rparr>) d date =
      get_availability lib w d date"
    by (simp only: get_availability_def clock_reads_frame)
  from assms(2) have "appointments_file (w\<lparr>clock_reads := clock_reads w + 2\<rparr>) = File_Absent \<or>
      (\<exists>rows. appointments_file (w\<lparr>clock_reads := clock_reads w + 2\<rparr>) =
         File_Rows (APPOINTMENT_FIELDS # rows) False)"
    by simp
  from get_availability_after_save [OF this, of apt lib d date] assms(3) apt av same w'
  have "get_availability lib w' d date = Inr (removeAll t available)" by simp
  moreover have "t \<notin> set (removeAll t available)" by simp
  ultimately show ?thesis by (simp add: book_appointment_def)
qed

lemma booking_removes_the_slot_on_written_file:
  assumes "book_appointment lib w d date t patient = Inr (Booking_Confirmed apt, w')"
    and "appointments_file w = File_Absent \<or>
         (\<exists>rows. appointments_file w = File_Rows (APPOINTMENT_FIELDS # rows) False)"
    and "CHR 0x0D \<notin> set d \<union> set date \<union> set t"
  shows "(\<exists>available. get_availability lib w d date = Inr available \<and> t \<in> set available \<and>
            get_availability lib w' d date = Inr (removeAll t available)) \<and>
         (\<forall>d' date'. (d', date') \<noteq> (d, date) \<longrightarrow>
            get_availability lib w' d' date' = get_availability lib w d' date')"
proof -
  from book_appointment_confirmed [OF assms(1)] obtain available where
    av: "get_availability lib w d date = Inr available" "t \<in> set available" and
    apt: "apt_doctor_name apt = d" "apt_date_iso apt = date" "apt_time_24h apt = t" and
    w': "w' = save_appointment lib apt (w\<lparr>clock_reads := clock_reads w + 2\<rparr>)"
    by blast
  have same: "get_availability lib (w\<lparr>clock_reads := clock_reads w + 2\<rparr>) d' date' =
      get_availability lib w d' date'" for d' date'
    by (simp only: get_availability_def clock_reads_frame)
  from assms(2) have "appointments_file (w\<lparr>clock_reads := clock_reads w + 2\<rparr>) = File_Absent \<or>
      (\<exists>rows. appointments_file (w\<lparr>clock_reads := clock_reads w + 2\<rparr>) =
         File_Rows (APPOINTMENT_FIELDS # rows) False)"
    by simp
  note after = get_availability_after_save [OF this, of apt lib]
  from after [of d date] assms(3) apt av same w'
  have "get_availability lib w' d date = Inr (removeAll t available)" by simp
  moreover have "get_availability lib w' d' date' = get_availability lib w d' date'"
    if "(d', date') \<noteq> (d, date)" for d' date'
    using after [of d' date'] assms(3) apt that same w' by (auto split: sum.splits)
  ultimately show ?thesis using av by blast
qed

text \<open>
  Claim C8. The identifier of a booking is \<open>APT-\<close> followed by the clock's whole seconds,
  so two successful bookings within one second are stored under the same identifier: here
  Dr X's 10:00 and 11:00 slots, booked one after the other while the clock reads
  1766480000, both get \<open>APT-1766480000\<close>, in the records returned and in the rows stored.
  The creation timestamp is read in the fixed zone \<open>IST\<close>.
\<close>

theorem same_second_bookings_share_id:
  "book_appointment sample_lib sample_world ''Dr X'' ''2025-12-23'' ''10:00'' sample_patient =
     Inr (Booking_Confirmed (sample_appointment ''2025-12-23'' ''10:00''), sample_booked) \<and>
   book_appointment sample_lib sample_booked ''Dr X'' ''2025-12-23'' ''11:00'' sample_patient =
     Inr (Booking_Confirmed (sample_appointment ''2025-12-23'' ''11:00''),
          sample_world\<lparr>appointments_file :=
                         File_Rows [APPOINTMENT_FIELDS, sample_cells ''2025-12-23'' ''10:00'',
                                    sample_cells ''2025-12-23'' ''11:00''] False,
                       clock_reads := 4\<rparr>) \<and>
   appointment_id (sample_appointment ''2025-12-23'' ''10:00'') = ''APT-1766480000'' \<and>
   appointment_id (sample_appointment ''2025-12-23'' ''11:00'') = ''APT-1766480000'' \<and>
   map (\<lambda>a. a ''appointment_id'')
     (load_appointments
        (sample_world\<lparr>appointments_file :=
                        File_Rows [APPOINTMENT_FIELDS, sample_cells ''2025-12-23'' ''10:00'',
                                   sample_cells ''2025-12-23'' ''11:00''] False,
                      clock_reads := 4\<rparr>)) =
     [Some (Some ''APT-1766480000''), Some (Some ''APT-1766480000'')]"
  by (simp add: book_appointment_def get_availability_def sample_simps)

section \<open>Readiness of the conversation state\<close>

text \<open>
  Claim C9, as stated, fails: a state whose patient name is set to the empty string, with
  the other four fields set, is not ready to book, although all five fields are set.
\<close>

theorem is_ready_to_book_empty_string_counterexample:
  "\<not> (is_ready_to_book sample_state \<longleftrightarrow>
        patient_name sample_state \<noteq> None \<and> patient_phone sample_state \<noteq> None \<and>
        doctor_name sample_state \<noteq> None \<and> date_iso sample_state \<noteq> None \<and>
        time_24h sample_state \<noteq> None)"
  by (simp add: is_ready_to_book_def truthy_def py_or_def sample_state_def)

text \<open>
  Claim C9, amended. \<open>is_ready_to_book\<close> is true if and only if patient name, patient phone,
  doctor name, date and time each hold a non-empty string; the specialty and the age play
  no part, and an unset field and an empty string both make it false.
\<close>

theorem is_ready_to_book_iff:
  "is_ready_to_book st \<longleftrightarrow>
     (\<exists>n p d dt t.
        patient_name st = Some n \<and> n \<noteq> [] \<and> patient_phone st = Some p \<and> p \<noteq> [] \<and>
        doctor_name st = Some d \<and> d \<noteq> [] \<and> date_iso st = Some dt \<and> dt \<noteq> [] \<and>
        time_24h st = Some t \<and> t \<noteq> [])"
  by (auto simp: is_ready_to_book_def truthy_def py_or_def split: option.splits)

section \<open>The doctor guard against the schedule lookup\<close>

text \<open>
  Claim C10, as stated, fails in two ways. The name \<open>dr x\<close> differs from the scheduled
  \<open>Dr X\<close> only in letter case; where \<open>dr x\<close> is itself the key of a schedule,
  \<open>get_availability\<close> returns that schedule's slots, and where the doctor table does not list
  the scheduled Dr X, \<open>doctor_exists\<close> rejects the name.
\<close>

theorem case_variant_counterexample:
  "lower (strip ''dr x'') = lower (strip ''Dr X'') \<and> ''dr x'' \<noteq> ''Dr X'' \<and>
   ''Dr X'' \<in> sched_doctor_name ` set (schedule_rows sample_namesake) \<and>
   get_availability sample_lib sample_namesake ''dr x'' ''2025-12-23'' = Inr [''09:00''] \<and>
   ''Dr X'' \<in> sched_doctor_name ` set (schedule_rows sample_unlisted) \<and>
   \<not> doctor_exists sample_unlisted ''dr x''"
  by (simp add: get_availability_def doctor_exists_def sample_simps)

text \<open>
  Claim C10, amended. Let the schedules file load. A name that equals the name of a row of
  the doctor table after stripping surrounding whitespace and lowering the case of both, and
  that is not itself the doctor name of a schedule row, is accepted by \<open>doctor_exists\<close>, and
  \<open>get_availability\<close> returns the empty list for it on every date string.
\<close>

theorem case_variant_guard_and_lookup:
  assumes "row \<in> set (doctors w)"
    and "lower (strip name) = lower (strip (doc_name row))"
    and "load_schedules w = Inr schedules"
    and "name \<notin> sched_doctor_name ` set (schedule_rows w)"
  shows "doctor_exists w name \<and> get_availability lib w name date = Inr []"
proof
  from assms(1,2) show "doctor_exists w name"
    by (auto simp: doctor_exists_def load_doctors_def list_ex_iff)
next
  from load_schedules_dom [OF assms(3)] assms(4) have "schedules name = None" by auto
  with assms(3) show "get_availability lib w name date = Inr []"
    by (simp add: get_availability_def)
qed

text \<open>The scheduled Dr X of the sample clinic, asked for as \<open>dr x\<close> between spaces.\<close>

theorem case_variant_guard_and_lookup_witness:
  "\<lparr>doc_name = ''Dr X'', doc_specialty = ''Orthopedics''\<rparr> \<in> set (doctors sample_world) \<and>
   ''Dr X'' \<in> sched_doctor_name ` set (schedule_rows sample_world) \<and>
   lower (strip '' dr x '') = lower (strip ''Dr X'') \<and>
   doctor_exists sample_world '' dr x '' \<and>
   get_availability sample_lib sample_world '' dr x '' ''2025-12-23'' = Inr []"
proof -
  have a: "\<lparr>doc_name = ''Dr X'', doc_specialty = ''Orthopedics''\<rparr> \<in> set (doctors sample_world)"
    by (simp add: sample_simps)
  have b: "lower (strip '' dr x '') =
      lower (strip (doc_name \<lparr>doc_name = ''Dr X'', doc_specialty = ''Orthopedics''\<rparr>))"
    by (simp add: sample_simps)
  have c: "'' dr x '' \<notin> sched_doctor_name ` set (schedule_rows sample_world)"
    by (simp add: sample_simps)
  have d: "''Dr X'' \<in> sched_doctor_name ` set (schedule_rows sample_world)"
    by (simp add: sample_simps)
  from case_variant_guard_and_lookup [OF a b sample_schedules c, of sample_lib "''2025-12-23''"] a b d
  show ?thesis by simp
qed

section \<open>The state update tool\<close>

text \<open>What the loop of \<open>update_state\<close> leaves in the state: no key is added, and a key of the
  state holds the last value the payload gives it, or its old value when the payload does
  not name it.\<close>

lemma apply_updates_lookup:
  "apply_updates state updates k =
     (if state k = None then None
      else (case map_of (rev updates) k of None \<Rightarrow> state k | Some v \<Rightarrow> Some v))"
proof (induction updates arbitrary: state)
  case Nil
  then show ?case by simp
next
  case (Cons kv updates)
  obtain k' v' where kv: "kv = (k', v')" by (cases kv)
  show ?case
    by (simp add: kv Cons.IH map_add_def split: option.splits)
qed

text \<open>
  Claim C7. The state is updated as the claim says (\<open>apply_updates_lookup\<close>), but the
  acknowledgement lists every key of the payload: for the payload \<open>{"nickname": "Bob"}\<close>,
  whose only key names no state field, the state stays as it was and the acknowledgement
  still reports \<open>nickname\<close> as updated.
\<close>

theorem update_state_reports_ignored_key:
  "execute_tool_state sample_lib sample_world initial_state ''update_state''
     (Some ''{\"nickname\": \"Bob\"}'') =
   Inr (State_Updated [''nickname''], sample_world, initial_state)"
  by (simp add: execute_tool_state_def parse_arguments_def clinic_tool_def update_state_def
        initial_state_def sample_lib_def sample_json_loads_def)

section \<open>Argument decoding in the tool dispatcher\<close>

lemma get_availability_unscheduled:
  "load_schedules w = Inr schedules \<Longrightarrow> schedules d = None \<Longrightarrow> get_availability lib w d date = Inr []"
  by (simp add: get_availability_def)

text \<open>
  Claim C6, as stated, fails: a \<open>get_availability\<close> call whose arguments name the scheduled
  Dr X and leave the date out gets the placeholder date \<open>""\<close>, on which
  \<open>datetime.fromisoformat\<close> raises; \<open>execute_tool\<close> raises \<open>ValueError\<close>.
\<close>

theorem execute_tool_raises_counterexample:
  "execute_tool sample_lib sample_world ''get_availability'' (Some ''{\"doctor_name\": \"Dr X\"}'') =
     Inl ValueError"
  by (simp add: execute_tool_def parse_arguments_def clinic_tool_def call_get_availability_def
        slots_reply_def get_availability_def sample_simps)

text \<open>
  Claim C6, amended. \<open>execute_tool\<close> decodes a missing or empty argument string to the empty
  argument object, and every tool then runs on its defaults: \<open>find_doctors\<close> on \<open>""\<close>,
  \<open>get_availability\<close> on \<open>""\<close> and \<open>""\<close>, \<open>book_appointment\<close> on \<open>""\<close>, \<open>""\<close>, \<open>""\<close> and \<open>{}\<close>,
  \<open>get_current_datetime\<close> on \<open>Asia/Kolkata\<close>; whatever the tool returns or raises is what
  \<open>execute_tool\<close> returns or raises. So \<open>find_doctors\<close>, \<open>list_specialties\<close> and an unknown tool
  name return their result, and so do \<open>get_availability\<close> (the empty list) and
  \<open>book_appointment\<close> (the failure \<open>slot_not_available\<close>, the world unchanged) when the
  schedules load and none is keyed by the empty name.

  With an argument string that decodes to an object, each tool runs on the values of its
  keys, a missing key replaced by its default: \<open>""\<close> for \<open>specialty\<close>, \<open>doctor_name\<close>, \<open>date_iso\<close>
  and \<open>time_24h\<close>, \<open>{}\<close> for \<open>patient\<close> (also in the place of a patient that is null, empty or
  otherwise false), \<open>Asia/Kolkata\<close> for \<open>timezone\<close>; again the tool's result or exception is
  that of \<open>execute_tool\<close>. (The cases are stated for string values of the first four keys.)
  An argument string that \<open>json.loads\<close> rejects makes \<open>execute_tool\<close> raise that error, whatever
  the tool.
\<close>

theorem execute_tool_argument_defaults:
  assumes "arguments_json = None \<or> arguments_json = Some []"
  shows "parse_arguments lib arguments_json = Inr (JObject []) \<and>
         execute_tool lib w ''find_doctors'' arguments_json =
           Inr (Doctors_Result (find_doctors w []), w) \<and>
         execute_tool lib w ''list_specialties'' arguments_json =
           Inr (Specialties_Result (list_specialties w), w) \<and>
         (tool_name \<notin> set [''find_doctors'', ''get_availability'', ''book_appointment'',
                              ''list_specialties'', ''get_current_datetime''] \<longrightarrow>
            execute_tool lib w tool_name arguments_json = Inr (Unknown_Tool tool_name, w)) \<and>
         execute_tool lib w ''get_availability'' arguments_json =
           slots_reply w (get_availability lib w [] []) \<and>
         execute_tool lib w ''book_appointment'' arguments_json =
           booking_reply (book_appointment lib w [] [] [] (JObject [])) \<and>
         execute_tool lib w ''get_current_datetime'' arguments_json =
           get_current_datetime lib w (JString ''Asia/Kolkata'') \<and>
         (load_schedules w = Inr schedules \<and> schedules [] = None \<longrightarrow>
            execute_tool lib w ''get_availability'' arguments_json = Inr (Slots_Result [], w) \<and>
            execute_tool lib w ''book_appointment'' arguments_json =
              Inr (Booking_Result (Booking_Failed ''slot_not_available''), w)) \<and>
         (\<forall>s kvs sp.
            s \<noteq> [] \<and> json_loads lib s = Inr (JObject kvs) \<and>
            (map_of kvs ''specialty'' = None \<and> sp = [] \<or> map_of kvs ''specialty'' = Some (JString sp)) \<longrightarrow>
            execute_tool lib w ''find_doctors'' (Some s) = Inr (Doctors_Result (find_doctors w sp), w)) \<and>
         (\<forall>s kvs d date.
            s \<noteq> [] \<and> json_loads lib s = Inr (JObject kvs) \<and>
            (map_of kvs ''doctor_name'' = None \<and> d = [] \<or> map_of kvs ''doctor_name'' = Some (JString d)) \<and>
            (map_of kvs ''date_iso'' = None \<and> date = [] \<or> map_of kvs ''date_iso'' = Some (JString date)) \<longrightarrow>
            execute_tool lib w ''get_availability'' (Some s) =
              slots_reply w (get_availability lib w d date)) \<and>
         (\<forall>s kvs d date t p.
            s \<noteq> [] \<and> json_loads lib s = Inr (JObject kvs) \<and>
            (map_of kvs ''doctor_name'' = None \<and> d = [] \<or> map_of kvs ''doctor_name'' = Some (JString d)) \<and>
            (map_of kvs ''date_iso'' = None \<and> date = [] \<or> map_of kvs ''date_iso'' = Some (JString date)) \<and>
            (map_of kvs ''time_24h'' = None \<and> t = [] \<or> map_of kvs ''time_24h'' = Some (JString t)) \<and>
            (map_of kvs ''patient'' = None \<and> p = JObject [] \<or> map_of kvs ''patient'' = Some p) \<longrightarrow>
            execute_tool lib w ''book_appointment'' (Some s) =
              booking_reply
                (book_appointment lib w d date t (if json_truthy p then p else JObject []))) \<and>
         (\<forall>s kvs tz.
            s \<noteq> [] \<and> json_loads lib s = Inr (JObject kvs) \<and>
            (map_of kvs ''timezone'' = None \<and> tz = JString ''Asia/Kolkata'' \<or>
             map_of kvs ''timezone'' = Some tz) \<longrightarrow>
            execute_tool lib w ''get_current_datetime'' (Some s) = get_current_datetime lib w tz) \<and>
         (\<forall>s e. s \<noteq> [] \<and> json_loads lib s = Inl e \<longrightarrow>
            execute_tool lib w tool_name (Some s) = Inl e)"
proof -
  from assms have parse: "parse_arguments lib arguments_json = Inr (JObject [])"
    by (auto simp: parse_arguments_def)
  have find: "execute_tool lib w ''find_doctors'' arguments_json =
      Inr (Doctors_Result (find_doctors w []), w)"
    by (simp add: execute_tool_def parse clinic_tool_def call_find_doctors_def)
  have list: "execute_tool lib w ''list_specialties'' arguments_json =
      Inr (Specialties_Result (list_specialties w), w)"
    by (simp add: execute_tool_def parse clinic_tool_def)
  have unknown: "execute_tool lib w tool_name arguments_json = Inr (Unknown_Tool tool_name, w)"
    if "tool_name \<notin> set [''find_doctors'', ''get_availability'', ''book_appointment'',
                             ''list_specialties'', ''get_current_datetime'']"
    using that by (simp add: execute_tool_def parse clinic_tool_def)
  have slots: "execute_tool lib w ''get_availability'' arguments_json =
      slots_reply w (get_availability lib w [] [])"
    by (simp add: execute_tool_def parse clinic_tool_def call_get_availability_def)
  have book: "execute_tool lib w ''book_appointment'' arguments_json =
      booking_reply (book_appointment lib w [] [] [] (JObject []))"
    by (simp add: execute_tool_def parse clinic_tool_def call_book_appointment_def as_string_def
          or_empty_dict_def)
  have now: "execute_tool lib w ''get_current_datetime'' arguments_json =
      get_current_datetime lib w (JString ''Asia/Kolkata'')"
    by (simp add: execute_tool_def parse clinic_tool_def)
  have unscheduled: "execute_tool lib w ''get_availability'' arguments_json = Inr (Slots_Result [], w) \<and>
      execute_tool lib w ''book_appointment'' arguments_json =
        Inr (Booking_Result (Booking_Failed ''slot_not_available''), w)"
    if "load_schedules w = Inr schedules \<and> schedules [] = None"
    using that
    by (simp add: slots book slots_reply_def booking_reply_def book_appointment_def
          get_availability_unscheduled [of w schedules])
  have specialty: "execute_tool lib w ''find_doctors'' (Some s) =
      Inr (Doctors_Result (find_doctors w sp), w)"
    if "s \<noteq> [] \<and> json_loads lib s = Inr (JObject kvs) \<and>
        (map_of kvs ''specialty'' = None \<and> sp = [] \<or> map_of kvs ''specialty'' = Some (JString sp))"
    for s kvs sp
    using that
    by (auto simp: execute_tool_def parse_arguments_def clinic_tool_def call_find_doctors_def)
  have lookup: "execute_tool lib w ''get_availability'' (Some s) =
      slots_reply w (get_availability lib w d date)"
    if "s \<noteq> [] \<and> json_loads lib s = Inr (JObject kvs) \<and>
        (map_of kvs ''doctor_name'' = None \<and> d = [] \<or> map_of kvs ''doctor_name'' = Some (JString d)) \<and>
        (map_of kvs ''date_iso'' = None \<and> date = [] \<or> map_of kvs ''date_iso'' = Some (JString date))"
    for s kvs d date
    using that
    by (auto simp: execute_tool_def parse_arguments_def clinic_tool_def call_get_availability_def)
  have booking: "execute_tool lib w ''book_appointment'' (Some s) =
      booking_reply (book_appointment lib w d date t (if json_truthy p then p else JObject []))"
    if "s \<noteq> [] \<and> json_loads lib s = Inr (JObject kvs) \<and>
        (map_of kvs ''doctor_name'' = None \<and> d = [] \<or> map_of kvs ''doctor_name'' = Some (JString d)) \<and>
        (map_of kvs ''date_iso'' = None \<and> date = [] \<or> map_of kvs ''date_iso'' = Some (JString date)) \<and>
        (map_of kvs ''time_24h'' = None \<and> t = [] \<or> map_of kvs ''time_24h'' = Some (JString t)) \<and>
        (map_of kvs ''patient'' = None \<and> p = JObject [] \<or> map_of kvs ''patient'' = Some p)"
    for s kvs d date t p
  proof -
    from that have "dict_get (JObject kvs) ''doctor_name'' (JString []) = Inr (JString d)"
      "dict_get (JObject kvs) ''date_iso'' (JString []) = Inr (JString date)"
      "dict_get (JObject kvs) ''time_24h'' (JString []) = Inr (JString t)"
      "dict_get (JObject kvs) ''patient'' (JObject []) = Inr p"
      by auto
    with that show ?thesis
      by (simp add: execute_tool_def parse_arguments_def clinic_tool_def call_book_appointment_def
            as_string_def or_empty_dict_def del: dict_get.simps)
  qed
  have zone: "execute_tool lib w ''get_current_datetime'' (Some s) = get_current_datetime lib w tz"
    if "s \<noteq> [] \<and> json_loads lib s = Inr (JObject kvs) \<and>
        (map_of kvs ''timezone'' = None \<and> tz = JString ''Asia/Kolkata'' \<or>
         map_of kvs ''timezone'' = Some tz)"
    for s kvs tz
    using that
    by (auto simp: execute_tool_def parse_arguments_def clinic_tool_def)
  have decode: "execute_tool lib w tool_name (Some s) = Inl e"
    if "s \<noteq> [] \<and> json_loads lib s = Inl e" for s e
    using that by (simp add: execute_tool_def parse_arguments_def)
  from parse find list unknown slots book now unscheduled specialty lookup booking zone decode
  show ?thesis by blast
qed

text \<open>The decoder of the examples on five argument strings.\<close>

lemma sample_loads_nickname:
  "json_loads sample_lib ''{\"nickname\": \"Bob\"}'' = Inr (JObject [(''nickname'', JString ''Bob'')])"
  by (simp add: sample_lib_def sample_json_loads_def)

lemma sample_loads_doctor_only:
  "json_loads sample_lib ''{\"doctor_name\": \"Dr X\"}'' = Inr (JObject [(''doctor_name'', JString ''Dr X'')])"
  by (simp add: sample_lib_def sample_json_loads_def)

lemma sample_loads_no_date:
  "json_loads sample_lib ''{\"doctor_name\": \"Dr X\", \"time_24h\": \"10:00\"}'' =
     Inr (JObject [(''doctor_name'', JString ''Dr X''), (''time_24h'', JString ''10:00'')])"
  by (simp add: sample_lib_def sample_json_loads_def)

lemma sample_loads_no_patient:
  "json_loads sample_lib
     ''{\"doctor_name\": \"Dr X\", \"date_iso\": \"2025-12-23\", \"time_24h\": \"10:00\"}'' =
     Inr (JObject [(''doctor_name'', JString ''Dr X''), (''date_iso'', JString ''2025-12-23''),
                   (''time_24h'', JString ''10:00'')])"
  by (simp add: sample_lib_def sample_json_loads_def)

lemma sample_loads_garbage:
  "json_loads sample_lib ''{oops'' = Inl JSONDecodeError"
  by (simp add: sample_lib_def sample_json_loads_def)

text \<open>The sample clinic: tool calls without an argument string, with a payload that lacks
  the keys asked for, and with a text that is no JSON. A booking without a date raises
  as the lookup does, and a booking of a free slot without a patient raises \<open>KeyError\<close> on
  the placeholder \<open>{}\<close>.\<close>

theorem execute_tool_argument_defaults_witness:
  "parse_arguments sample_lib None = Inr (JObject []) \<and>
   execute_tool sample_lib sample_world ''find_doctors'' None = Inr (Doctors_Result [], sample_world) \<and>
   execute_tool sample_lib sample_world ''list_specialties'' None =
     Inr (Specialties_Result (list_specialties sample_world), sample_world) \<and>
   execute_tool sample_lib sample_world ''dance'' None = Inr (Unknown_Tool ''dance'', sample_world) \<and>
   execute_tool sample_lib sample_world ''get_availability'' None = Inr (Slots_Result [], sample_world) \<and>
   execute_tool sample_lib sample_world ''book_appointment'' None =
     Inr (Booking_Result (Booking_Failed ''slot_not_available''), sample_world) \<and>
   execute_tool sample_lib sample_world ''get_current_datetime'' None =
     Inr (Datetime_Result (JString ''Asia/Kolkata'') ''2025-12-23T14:23:20+05:30'' ''2025-12-23''
            ''Tuesday'',
          sample_world\<lparr>clock_reads := 1\<rparr>) \<and>
   execute_tool sample_lib sample_world ''find_doctors'' (Some ''{\"nickname\": \"Bob\"}'') =
     Inr (Doctors_Result [], sample_world) \<and>
   execute_tool sample_lib sample_world ''get_availability'' (Some ''{\"doctor_name\": \"Dr X\"}'') =
     Inl ValueError \<and>
   execute_tool sample_lib sample_world ''book_appointment''
     (Some ''{\"doctor_name\": \"Dr X\", \"time_24h\": \"10:00\"}'') = Inl ValueError \<and>
   execute_tool sample_lib sample_world ''book_appointment''
     (Some ''{\"doctor_name\": \"Dr X\", \"date_iso\": \"2025-12-23\", \"time_24h\": \"10:00\"}'') =
     Inl (KeyError ''name'') \<and>
   execute_tool sample_lib sample_world ''get_current_datetime'' (Some ''{\"nickname\": \"Bob\"}'') =
     Inr (Datetime_Result (JString ''Asia/Kolkata'') ''2025-12-23T14:23:20+05:30'' ''2025-12-23''
            ''Tuesday'',
          sample_world\<lparr>clock_reads := 1\<rparr>) \<and>
   execute_tool sample_lib sample_world ''list_specialties'' (Some ''{oops'') = Inl JSONDecodeError"
proof -
  have none: "(None :: string option) = None \<or> (None :: string option) = Some []" by simp
  note defaults = execute_tool_argument_defaults [OF none, of sample_lib sample_world _
      "[''Dr X'' \<mapsto> \<lparr>working_days = [0, 1, 2], slots = [''10:00'', ''11:00'', ''12:00'']\<rparr>]"]
  have no_match: "find_doctors sample_world [] = []"
    by (simp add: find_doctors_def sample_simps)
  have no_date: "get_availability sample_lib sample_world ''Dr X'' [] = Inl ValueError"
    by (simp add: get_availability_def sample_simps)
  have no_date_booking:
    "book_appointment sample_lib sample_world ''Dr X'' [] ''10:00'' (JObject []) = Inl ValueError"
    by (simp add: book_appointment_def no_date)
  have no_patient:
    "book_appointment sample_lib sample_world ''Dr X'' ''2025-12-23'' ''10:00'' (JObject []) =
       Inl (KeyError ''name'')"
    by (simp add: book_appointment_def get_availability_def sample_simps)
  have clock: "get_current_datetime sample_lib sample_world (JString ''Asia/Kolkata'') =
      Inr (Datetime_Result (JString ''Asia/Kolkata'') ''2025-12-23T14:23:20+05:30'' ''2025-12-23''
             ''Tuesday'',
           sample_world\<lparr>clock_reads := 1\<rparr>)"
    by (simp add: get_current_datetime_def sample_lib_def sample_world_def)
  from defaults [of "''dance''"] no_match
  have a: "parse_arguments sample_lib None = Inr (JObject [])"
    and b: "execute_tool sample_lib sample_world ''find_doctors'' None = Inr (Doctors_Result [], sample_world)"
    and c: "execute_tool sample_lib sample_world ''list_specialties'' None =
      Inr (Specialties_Result (list_specialties sample_world), sample_world)"
    and d: "execute_tool sample_lib sample_world ''dance'' None = Inr (Unknown_Tool ''dance'', sample_world)"
    by simp_all
  note c2 = conjunct2
  note tail = defaults [of "''dance''", THEN c2, THEN c2, THEN c2, THEN c2, THEN c2, THEN c2, THEN c2]
  from tail [THEN conjunct1, rule_format] sample_schedules
  have e: "execute_tool sample_lib sample_world ''get_availability'' None = Inr (Slots_Result [], sample_world)"
    and f: "execute_tool sample_lib sample_world ''book_appointment'' None =
      Inr (Booking_Result (Booking_Failed ''slot_not_available''), sample_world)"
    by simp_all
  from defaults [of "''dance''", THEN c2, THEN c2, THEN c2, THEN c2, THEN c2, THEN c2, THEN conjunct1]
    clock
  have g: "execute_tool sample_lib sample_world ''get_current_datetime'' None =
      Inr (Datetime_Result (JString ''Asia/Kolkata'') ''2025-12-23T14:23:20+05:30'' ''2025-12-23''
             ''Tuesday'',
           sample_world\<lparr>clock_reads := 1\<rparr>)"
    by simp
  note specialty = tail [THEN c2, THEN conjunct1, rule_format]
  note lookup = tail [THEN c2, THEN c2, THEN conjunct1, rule_format]
  note booking = tail [THEN c2, THEN c2, THEN c2, THEN conjunct1, rule_format]
  note zone = tail [THEN c2, THEN c2, THEN c2, THEN c2, THEN conjunct1, rule_format]
  note decode =
    defaults [of "''list_specialties''", THEN c2, THEN c2, THEN c2, THEN c2, THEN c2, THEN c2, THEN c2,
      THEN c2, THEN c2, THEN c2, THEN c2, THEN c2, rule_format]
  from specialty [of "''{\"nickname\": \"Bob\"}''" "[(''nickname'', JString ''Bob'')]" "[]"]
    sample_loads_nickname no_match
  have h: "execute_tool sample_lib sample_world ''find_doctors'' (Some ''{\"nickname\": \"Bob\"}'') =
      Inr (Doctors_Result [], sample_world)"
    by simp
  from lookup [of "''{\"doctor_name\": \"Dr X\"}''" "[(''doctor_name'', JString ''Dr X'')]" "''Dr X''" "[]"]
    sample_loads_doctor_only no_date
  have i: "execute_tool sample_lib sample_world ''get_availability'' (Some ''{\"doctor_name\": \"Dr X\"}'') =
      Inl ValueError"
    by (simp add: slots_reply_def)
  from booking [of "''{\"doctor_name\": \"Dr X\", \"time_24h\": \"10:00\"}''"
      "[(''doctor_name'', JString ''Dr X''), (''time_24h'', JString ''10:00'')]"
      "''Dr X''" "[]" "''10:00''" "JObject []"]
    sample_loads_no_date no_date_booking
  have j: "execute_tool sample_lib sample_world ''book_appointment''
      (Some ''{\"doctor_name\": \"Dr X\", \"time_24h\": \"10:00\"}'') = Inl ValueError"
    by (simp add: booking_reply_def)
  from booking [of "''{\"doctor_name\": \"Dr X\", \"date_iso\": \"2025-12-23\", \"time_24h\": \"10:00\"}''"
      "[(''doctor_name'', JString ''Dr X''), (''date_iso'', JString ''2025-12-23''),
        (''time_24h'', JString ''10:00'')]"
      "''Dr X''" "''2025-12-23''" "''10:00''" "JObject []"]
    sample_loads_no_patient no_patient
  have k: "execute_tool sample_lib sample_world ''book_appointment''
      (Some ''{\"doctor_name\": \"Dr X\", \"date_iso\": \"2025-12-23\", \"time_24h\": \"10:00\"}'') =
      Inl (KeyError ''name'')"
    by (simp add: booking_reply_def)
  from zone [of "''{\"nickname\": \"Bob\"}''" "[(''nickname'', JString ''Bob'')]" "JString ''Asia/Kolkata''"]
    sample_loads_nickname clock
  have l: "execute_tool sample_lib sample_world ''get_current_datetime'' (Some ''{\"nickname\": \"Bob\"}'') =
      Inr (Datetime_Result (JString ''Asia/Kolkata'') ''2025-12-23T14:23:20+05:30'' ''2025-12-23''
             ''Tuesday'',
           sample_world\<lparr>clock_reads := 1\<rparr>)"
    by simp
  from decode [of "''{oops''" JSONDecodeError] sample_loads_garbage
  have m: "execute_tool sample_lib sample_world ''list_specialties'' (Some ''{oops'') = Inl JSONDecodeError"
    by simp
  from a b c d e f g h i j k l m show ?thesis by simp
qed

section \<open>The guard of the orchestrator\<close>

text \<open>No tool changes the doctor table, so the guard gives the same answer throughout a turn.\<close>


lemma book_appointment_doctors:
  "book_appointment lib w d date t patient = Inr (r, w') \<Longrightarrow> doctors w' = doctors w"
  by (auto simp: book_appointment_def save_appointment_def Let_def
        split: sum.splits if_splits csv_file.splits)

lemma call_book_appointment_doctors:
  "call_book_appointment lib w dn di tm patient = Inr (r, w') \<Longrightarrow> doctors w' = doctors w"
  by (auto simp: call_book_appointment_def dest: book_appointment_doctors
        split: option.splits sum.splits)

lemma get_current_datetime_doctors:
  "get_current_datetime lib w tz = Inr (r, w') \<Longrightarrow> doctors w' = doctors w"
  by (auto simp: get_current_datetime_def split: sum.splits)

lemma clinic_tool_doctors:
  assumes "clinic_tool lib w tool_name args = Some (Inr (r, w'))"
  shows "doctors w' = doctors w"
proof -
  consider (find) "tool_name = ''find_doctors''"
    | (avail) "tool_name = ''get_availability''"
    | (book) "tool_name = ''book_appointment''"
    | (list) "tool_name = ''list_specialties''"
    | (now) "tool_name = ''get_current_datetime''"
    | (other) "tool_name \<notin> set [''find_doctors'', ''get_availability'', ''book_appointment'',
                                  ''list_specialties'', ''get_current_datetime'']"
    by auto
  then show ?thesis
  proof cases
    case find
    with assms show ?thesis by (auto simp: clinic_tool_def split: sum.splits)
  next
    case avail
    with assms show ?thesis by (auto simp: clinic_tool_def slots_reply_def split: sum.splits)
  next
    case book
    with assms show ?thesis
      by (auto simp: clinic_tool_def booking_reply_def dest: call_book_appointment_doctors
            split: sum.splits)
  next
    case list
    with assms show ?thesis by (auto simp: clinic_tool_def)
  next
    case now
    with assms show ?thesis
      by (auto simp: clinic_tool_def dest: get_current_datetime_doctors split: sum.splits)
  next
    case other
    with assms show ?thesis by (simp add: clinic_tool_def)
  qed
qed

lemma execute_tool_doctors:
  "execute_tool lib w tool_name arguments_json = Inr (r, w') \<Longrightarrow> doctors w' = doctors w"
  by (auto simp: execute_tool_def dest: clinic_tool_doctors split: sum.splits option.splits)


lemma run_tool_calls_doctors:
  "run_tool_calls lib w msgs tcs = Inr (x, w', msgs') \<Longrightarrow> doctors w' = doctors w"
proof (induction tcs arbitrary: w msgs)
  case Nil
  then show ?case by simp
next
  case (Cons tc tcs)
  from Cons.prems obtain ok where ok: "availability_guard lib w tc = Inr ok"
    by (auto split: sum.splits)
  show ?case
  proof (cases ok)
    case False
    with Cons.prems ok show ?thesis by simp
  next
    case True
    with Cons.prems ok obtain result w1 where
      ex: "execute_tool lib w (tc_name tc) (tc_arguments tc) = Inr (result, w1)"
      by (auto split: sum.splits)
    from execute_tool_doctors [OF ex] have w1: "doctors w1 = doctors w" .
    show ?thesis
    proof (cases "tc_name tc = ''find_doctors'' \<and> result = Doctors_Result []")
      case True
      with Cons.prems ok \<open>ok\<close> ex w1 show ?thesis by simp
    next
      case False
      with Cons.prems ok \<open>ok\<close> ex
      have "run_tool_calls lib w1 (msgs @ [Tool_Msg (tc_id tc) result]) tcs = Inr (x, w', msgs')"
        by auto
      from Cons.IH [OF this] w1 show ?thesis by simp
    qed
  qed
qed

lemma doctor_exists_cong:
  "doctors w' = doctors w \<Longrightarrow> doctor_exists w' name = doctor_exists w name"
  by (simp add: doctor_exists_def load_doctors_def)

text \<open>A batch runs its first calls, then the rest, unless a guard returned in between.\<close>

lemma run_tool_calls_append:
  "run_tool_calls lib w msgs (pre @ post) =
     (case run_tool_calls lib w msgs pre of
        Inl e \<Rightarrow> Inl e
      | Inr (Some r, w', msgs') \<Rightarrow> Inr (Some r, w', msgs')
      | Inr (None, w', msgs') \<Rightarrow> run_tool_calls lib w' msgs' post)"
proof (induction pre arbitrary: w msgs)
  case Nil
  then show ?case by simp
next
  case (Cons tc pre)
  show ?case
    by (simp add: Cons.IH split: sum.splits prod.splits)
qed


lemma guard_rejects_call:
  assumes "tc_name tc = ''get_availability''"
    and "tc_arguments tc = Some s" and "json_loads lib s = Inr args"
    and "dict_get args ''doctor_name'' (JString []) = Inr (JString name)"
    and "\<not> doctor_exists w name"
  shows "run_tool_calls lib w msgs (tc # post) = Inr (Some no_doctors_reply, w, msgs)"
  using assms by (simp add: availability_guard_def call_doctor_exists_def)

text \<open>
  Claim C5, amended. In the guarded orchestrator, let the model's answer carry a batch of
  tool calls, and let the loop reach a \<open>get_availability\<close> call of the batch (the calls
  before it ran to their end without a guard firing) whose argument string decodes to an
  object with a string \<open>doctor_name\<close> (or none, which counts as \<open>""\<close>). If that name equals no
  doctor record's name after stripping surrounding whitespace and lowering the case of
  both, \<open>run_turn\<close> returns the fixed reply: the world and the transcript are those the
  earlier calls left, so neither this availability lookup nor any later call of the batch
  has run, and the model's remaining answers are all unread.
\<close>

theorem unknown_doctor_short_circuits:
  assumes "tool_calls assistant = pre @ tc # post"
    and "run_tool_calls lib w (msgs @ [Assistant_Msg assistant]) pre = Inr (None, w', msgs')"
    and "tc_name tc = ''get_availability''"
    and "tc_arguments tc = Some s" and "json_loads lib s = Inr args"
    and "dict_get args ''doctor_name'' (JString []) = Inr (JString name)"
    and "\<forall>row \<in> set (doctors w). lower (strip (doc_name row)) \<noteq> lower (strip name)"
  shows "run_turn lib (Inr assistant # answers) w msgs =
           Some (Inr \<lparr>reply = no_doctors_reply, world_after = w', transcript = msgs',
                      unread = answers\<rparr>)"
proof -
  from assms(7) have "\<not> doctor_exists w name"
    by (auto simp: doctor_exists_def load_doctors_def list_ex_iff)
  with doctor_exists_cong [OF run_tool_calls_doctors [OF assms(2)], of name]
  have "\<not> doctor_exists w' name" by simp
  from guard_rejects_call [OF assms(3-6) this]
  have "run_tool_calls lib w' msgs' (tc # post) = Inr (Some no_doctors_reply, w', msgs')" .
  with assms(2)
  have "run_tool_calls lib w (msgs @ [Assistant_Msg assistant]) (pre @ tc # post) =
      Inr (Some no_doctors_reply, w', msgs')"
    by (simp add: run_tool_calls_append)
  with assms(1) show ?thesis by simp
qed


text \<open>The examples, evaluated step by step.\<close>

lemma sample_find_call_fields:
  "tc_name sample_find_call = ''find_doctors''"
  "tc_arguments sample_find_call = Some ''{\"specialty\": \"Orthopedics\"}''"
  "tc_id sample_find_call = Some ''call_1''"
  by (simp_all add: sample_find_call_def)

lemma sample_spaced_call_fields:
  "tc_name sample_spaced_call = ''get_availability''"
  "tc_arguments sample_spaced_call = Some ''{\"doctor_name\": \" dr x\", \"date_iso\": \"2025-12-23\"}''"
  "tc_id sample_spaced_call = Some ''call_1''"
  by (simp_all add: sample_spaced_call_def)

lemma sample_find_guard:
  "availability_guard sample_lib sample_world sample_find_call = Inr True"
  by (simp add: availability_guard_def sample_find_call_fields)

lemma sample_find_executes:
  "execute_tool sample_lib sample_world ''find_doctors'' (Some ''{\"specialty\": \"Orthopedics\"}'') =
     Inr (Doctors_Result [\<lparr>doc_name = ''Dr X'', doc_specialty = ''Orthopedics''\<rparr>], sample_world)"
  by (simp add: execute_tool_def parse_arguments_def clinic_tool_def
        call_find_doctors_def find_doctors_def sample_simps)

lemma sample_find_result:
  "run_tool_calls sample_lib sample_world msgs [sample_find_call] =
     Inr (None, sample_world,
          msgs @ [Tool_Msg (Some ''call_1'')
                    (Doctors_Result [\<lparr>doc_name = ''Dr X'', doc_specialty = ''Orthopedics''\<rparr>])])"
  by (simp add: sample_find_guard sample_find_call_fields sample_find_executes)

lemma sample_spaced_guard:
  "availability_guard sample_lib sample_world sample_spaced_call = Inr True"
  by (simp add: availability_guard_def sample_spaced_call_fields call_doctor_exists_def
        doctor_exists_def sample_simps)

lemma sample_spaced_executes:
  "execute_tool sample_lib sample_world ''get_availability''
     (Some ''{\"doctor_name\": \" dr x\", \"date_iso\": \"2025-12-23\"}'') =
     Inr (Slots_Result [], sample_world)"
  by (simp add: execute_tool_def parse_arguments_def clinic_tool_def call_get_availability_def
        slots_reply_def get_availability_def sample_simps)

lemma sample_spaced_result:
  "run_tool_calls sample_lib sample_world msgs [sample_spaced_call] =
     Inr (None, sample_world, msgs @ [Tool_Msg (Some ''call_1'') (Slots_Result [])])"
  by (simp add: sample_spaced_guard sample_spaced_call_fields sample_spaced_executes)

text \<open>A batch of three calls: the doctor search runs, the availability lookup that names
  the specialty \<open>Orthopedics\<close> ends the turn, and the third call and the model's second
  answer are never used.\<close>

theorem unknown_doctor_short_circuits_witness:
  "list_all (\<lambda>row. lower (strip (doc_name row)) \<noteq> lower (strip ''Orthopedics''))
     (doctors sample_world) \<and>
   run_turn sample_lib
     [Inr \<lparr>content = None,
           tool_calls = [sample_find_call, sample_specialty_call, sample_list_call]\<rparr>,
      Inr sample_final]
     sample_world [User_Msg ''orthopedics tomorrow?''] =
   Some (Inr \<lparr>reply = no_doctors_reply, world_after = sample_world,
              transcript =
                [User_Msg ''orthopedics tomorrow?'',
                 Assistant_Msg \<lparr>content = None,
                                 tool_calls = [sample_find_call, sample_specialty_call, sample_list_call]\<rparr>,
                 Tool_Msg (Some ''call_1'')
                   (Doctors_Result [\<lparr>doc_name = ''Dr X'', doc_specialty = ''Orthopedics''\<rparr>])],
              unread = [Inr sample_final]\<rparr>)"
proof -
  have calls: "tool_calls \<lparr>content = None,
        tool_calls = [sample_find_call, sample_specialty_call, sample_list_call]\<rparr> =
      [sample_find_call] @ sample_specialty_call # [sample_list_call]"
    by simp
  have name: "tc_name sample_specialty_call = ''get_availability''"
    by (simp add: sample_specialty_call_def)
  have args: "tc_arguments sample_specialty_call =
      Some ''{\"doctor_name\": \"Orthopedics\", \"date_iso\": \"2025-12-23\"}''"
    by (simp add: sample_specialty_call_def)
  have loads: "json_loads sample_lib ''{\"doctor_name\": \"Orthopedics\", \"date_iso\": \"2025-12-23\"}'' =
      Inr (JObject [(''doctor_name'', JString ''Orthopedics''), (''date_iso'', JString ''2025-12-23'')])"
    by (simp add: sample_lib_def sample_json_loads_def)
  have get: "dict_get (JObject [(''doctor_name'', JString ''Orthopedics''),
        (''date_iso'', JString ''2025-12-23'')]) ''doctor_name'' (JString []) =
      Inr (JString ''Orthopedics'')"
    by simp
  have unknown: "\<forall>row \<in> set (doctors sample_world).
      lower (strip (doc_name row)) \<noteq> lower (strip ''Orthopedics'')"
    by (simp add: sample_simps)
  from unknown_doctor_short_circuits [OF calls sample_find_result name args loads get unknown,
      of "[Inr sample_final]"]
  have "run_turn sample_lib
     [Inr \<lparr>content = None,
           tool_calls = [sample_find_call, sample_specialty_call, sample_list_call]\<rparr>,
      Inr sample_final]
     sample_world [User_Msg ''orthopedics tomorrow?''] =
   Some (Inr \<lparr>reply = no_doctors_reply, world_after = sample_world,
              transcript =
                [User_Msg ''orthopedics tomorrow?''] @
                [Assistant_Msg \<lparr>content = None,
                                 tool_calls = [sample_find_call, sample_specialty_call, sample_list_call]\<rparr>] @
                [Tool_Msg (Some ''call_1'')
                   (Doctors_Result [\<lparr>doc_name = ''Dr X'', doc_specialty = ''Orthopedics''\<rparr>])],
              unread = [Inr sample_final]\<rparr>)"
    by (simp only: append_assoc)
  moreover from unknown
  have "list_all (\<lambda>row. lower (strip (doc_name row)) \<noteq> lower (strip ''Orthopedics''))
      (doctors sample_world)"
    by (simp only: list_all_iff)
  ultimately show ?thesis by (simp only: append.simps simp_thms)
qed

text \<open>
  Claim C5, as stated, fails: the name \<open>dr x\<close> after a space equals no doctor name when
  only the case is ignored, yet \<open>doctor_exists\<close> also strips the space and lets the call
  through. The availability tool runs, its (empty) result joins the transcript, and the
  model is asked a second time; the reply is the model's, not the fixed one.
\<close>

theorem spaced_doctor_name_counterexample:
  "\<not> list_ex (\<lambda>row. lower (doc_name row) = lower '' dr x'') (doctors sample_world) \<and>
   run_turn sample_lib
     [Inr \<lparr>content = None, tool_calls = [sample_spaced_call]\<rparr>, Inr sample_final]
     sample_world [User_Msg ''dr x tomorrow?''] =
   Some (Inr \<lparr>reply = ''Dr X has no free slot on that day.'', world_after = sample_world,
              transcript =
                [User_Msg ''dr x tomorrow?'',
                 Assistant_Msg \<lparr>content = None, tool_calls = [sample_spaced_call]\<rparr>,
                 Tool_Msg (Some ''call_1'') (Slots_Result []),
                 Assistant_Msg sample_final],
              unread = []\<rparr>)"
proof -
  have "\<not> list_ex (\<lambda>row. lower (doc_name row) = lower '' dr x'') (doctors sample_world)"
    by (simp add: sample_simps)
  moreover have "tool_calls sample_final = []" "content sample_final = Some ''Dr X has no free slot on that day.''"
    by (simp_all add: sample_final_def)
  ultimately show ?thesis
    by (simp add: sample_spaced_result del: run_tool_calls.simps)
qed

text \<open>The guard also strips the whitespace beyond ASCII: the no-break space after the name
  is removed as a space before it is.\<close>

lemma guard_strips_no_break_space:
  "doctor_exists sample_world (''dr x'' @ [CHR 0xA0])"
  by (simp add: doctor_exists_def sample_simps)

end
